theory Spec2Isabelle
  imports Main
begin

section \<open>Platform objects used by RoomConnectionManager\<close>

text \<open>
  The manager of \<^verbatim>\<open>RoomConnectionManager.ts\<close> drives two browser objects, a WebSocket
  and an RTCPeerConnection. Only the parts of them that the manager reads or writes are
  kept. Strings are \<open>string\<close>; the opaque SDP text and ICE candidates are strings too.
\<close>

type_synonym sdp = string
type_synonym candidate = string

datatype readyState = CONNECTING | OPEN | CLOSING | CLOSED

datatype direction = Sendrecv | Sendonly | Recvonly | InactiveDir

datatype connectionState = New | Connecting | Connected | Disconnected | Failed | Closed

record mediaStreamTrack =
  trackId :: string
  hasContentHint :: bool

text \<open>A MediaStream: its \<open>id\<close> and what \<open>getVideoTracks()\<close> and \<open>getAudioTracks()\<close> return.\<close>

record mediaStream =
  msId :: string
  videoTracks :: "mediaStreamTrack list"
  audioTracks :: "mediaStreamTrack list"

text \<open>
  An RTCRtpTransceiver is an object shared between the connection's transceiver list
  and the manager's two fields, so transceivers live in a store and are named by
  reference.
\<close>

record transceiver =
  trDirection :: direction
  senderTrack :: "mediaStreamTrack option"

text \<open>The three functions that the code assigns to \<open>ws.onmessage\<close>.\<close>

datatype wsHandler = LogWebrtcInactive | HandleWsMessage | LogInactive

record webSocket =
  readyState :: readyState
  onmessage :: wsHandler

text \<open>
  The handler fields of the connection hold either one fixed method of the manager or
  \<open>null\<close>, so each is a flag.
\<close>

record peerConnection =
  onicecandidate :: bool
  onconnectionstatechange :: bool
  ontrack :: bool
  onnegotiationneeded :: bool
  pcConnectionState :: connectionState
  pcTransceivers :: "nat list"
  remoteDescription :: "(string \<times> sdp) option"
  localDescription :: "(string \<times> sdp) option"

section \<open>Messages, callbacks and the trace of effects\<close>

text \<open>The payloads that the manager builds for outgoing envelopes.\<close>

datatype payload =
    PJoin string
  | PExit string
  | PEmpty
  | PStreamId string
  | PCandidate candidate
  | PDescription "(string \<times> sdp) option"

text \<open>The envelope built by \<open>sendMessage\<close>: type, clientId, roomId, payload.\<close>

datatype signalMessage =
  SignalMessage (msgType: string) (msgClientId: string) (msgRoomId: string) (msgPayload: payload)

text \<open>
  An inbound message after \<open>JSON.parse\<close>, by the cases of the switch in
  \<open>handleWsMessage\<close>; the payload casts of the source are taken to be right.
  \<open>InPeerScreenShare streamId peerId\<close>, \<open>InPeerScreenShareStop peerId\<close>,
  \<open>InPeerExit peerId peerName\<close>; \<open>InOther ty\<close> is any other message type.
\<close>

datatype inbound =
    InOffer sdp
  | InAnswer sdp
  | InCandidate candidate
  | InPeerExit string string
  | InPeerScreenShare string string
  | InPeerScreenShareStop string
  | InOther string

datatype wsData = Parsed inbound | Unparseable

text \<open>The interface RoomConnectionManagerCallbacks, one constructor per member.\<close>

datatype callback =
    OnStatusChange string
  | OnRemoteStream mediaStream
  | OnRemoteStreamStopped
  | OnPeerExit string string
  | OnPeerScreenShare string mediaStream
  | OnPeerScreenShareStopped string
  | OnError string

datatype level = Log | Warn | Error

datatype platformOp =
    NewWebSocket
  | WsClose
  | NewPeerConnection
  | PcClose
  | SetOnNegotiationNeeded
  | SetContentHint string string
  | SetDegradationPreference nat string

text \<open>
  Everything the manager does to the outside, in program order: envelopes handed to
  \<open>ws.send\<close>, callbacks invoked, console lines, and calls on platform objects whose
  result is not a field of the state.
\<close>

datatype effect =
    Send signalMessage
  | Callback callback
  | Console level string
  | Platform platformOp

text \<open>
  What the platform answers to the calls that may throw or reject during one handler:
  the constructor of the connection, \<open>setRemoteDescription\<close> (on success the number of
  transceivers it creates), \<open>createAnswer\<close> and \<open>createOffer\<close> (on success the SDP),
  \<open>setLocalDescription\<close>, \<open>addIceCandidate\<close>, \<open>replaceTrack\<close>, \<open>getParameters\<close> and
  \<open>setParameters\<close>. Each handler makes each call at most once.
\<close>

record platform =
  newPeerConnectionOk :: bool
  setRemoteDescriptionNew :: "nat option"
  createAnswerSdp :: "sdp option"
  createOfferSdp :: "sdp option"
  setLocalDescriptionOk :: bool
  addIceCandidateOk :: bool
  replaceTrackOk :: bool
  getParametersOk :: bool
  setParametersOk :: bool

section \<open>The state of a RoomConnectionManager\<close>

record manager =
  ws :: "webSocket option"
  pc :: "peerConnection option"
  roomId :: string
  clientId :: string
  userName :: string
  screenShareVideoTransceiver :: "nat option"
  screenShareAudioTransceiver :: "nat option"
  exited :: bool
  pendingStreams :: "string \<rightharpoonup> mediaStream"
  pendingScreenShareIds :: "string \<rightharpoonup> string"
  store :: "nat \<rightharpoonup> transceiver"
  nextRef :: nat
  effects :: "effect list"

text \<open>The constructor and the field initialisers.\<close>

definition newManager :: "string \<Rightarrow> string \<Rightarrow> string \<Rightarrow> manager" where
  "newManager room client name =
     \<lparr> ws = None, pc = None, roomId = room, clientId = client, userName = name,
       screenShareVideoTransceiver = None, screenShareAudioTransceiver = None,
       exited = True, pendingStreams = Map.empty, pendingScreenShareIds = Map.empty,
       store = Map.empty, nextRef = 0, effects = [] \<rparr>"

definition emit :: "effect \<Rightarrow> manager \<Rightarrow> manager" where
  "emit e st = st\<lparr>effects := effects st @ [e]\<rparr>"

definition wsOpen :: "manager \<Rightarrow> bool" where
  "wsOpen st = (case ws st of None \<Rightarrow> False | Some w \<Rightarrow> readyState w = OPEN)"

text \<open>The envelopes sent and the callbacks fired so far, in order.\<close>

fun sentOf :: "effect list \<Rightarrow> signalMessage list" where
  "sentOf [] = []"
| "sentOf (Send m # es) = m # sentOf es"
| "sentOf (_ # es) = sentOf es"

fun callbacksOf :: "effect list \<Rightarrow> callback list" where
  "callbacksOf [] = []"
| "callbacksOf (Callback c # es) = c # callbacksOf es"
| "callbacksOf (_ # es) = callbacksOf es"

section \<open>Operations\<close>

text \<open>
  \<open>sendMessage\<close>: dropped with a console error unless the socket exists and is OPEN.
  \<open>ws.send\<close> on an OPEN socket and \<open>JSON.stringify\<close> of these payloads do not throw, so
  the inner try has no failing branch.
\<close>

definition sendMessage :: "string \<Rightarrow> payload \<Rightarrow> manager \<Rightarrow> manager" where
  "sendMessage ty pl st =
     (if \<not> wsOpen st
      then emit (Console Error (''Cannot send message, WebSocket is not available. Type: '' @ ty)) st
      else emit (Send (SignalMessage ty (clientId st) (roomId st) pl)) st)"

definition initSignalingConnection :: "manager \<Rightarrow> manager" where
  "initSignalingConnection st =
     (emit (Platform NewWebSocket) st)
       \<lparr> ws := Some \<lparr> readyState = CONNECTING, onmessage = LogWebrtcInactive \<rparr>,
         exited := True \<rparr>"

definition disconnect :: "manager \<Rightarrow> manager" where
  "disconnect st =
     (if exited st then st
      else
        let st1 = (emit (Console Log ''Disconnecting...'') st)\<lparr>exited := True\<rparr>;
            st2 = (if wsOpen st1 then sendMessage ''exit'' (PExit (userName st1)) st1 else st1);
            st3 = (case ws st2 of
                     None \<Rightarrow> st2
                   | Some w \<Rightarrow> st2\<lparr>ws := Some (w\<lparr>onmessage := LogInactive\<rparr>)\<rparr>);
            st4 = (case pc st3 of
                     None \<Rightarrow> st3
                   | Some p \<Rightarrow> (emit (Platform PcClose) st3)\<lparr>pc := None\<rparr>);
            st5 = emit (Callback (OnStatusChange ''inactive'')) st4
        in emit (Callback OnRemoteStreamStopped) st5)"

definition cleanup :: "manager \<Rightarrow> manager" where
  "cleanup st =
     (let st1 = disconnect st
      in case ws st1 of
           None \<Rightarrow> st1
         | Some w \<Rightarrow> (emit (Platform WsClose) st1)\<lparr>ws := None\<rparr>)"

text \<open>
  \<open>pc.addTrack(track, stream)\<close> creates a transceiver that sends the track. The store
  gets a fresh reference.
\<close>

definition addTransceiver :: "transceiver \<Rightarrow> manager \<Rightarrow> manager" where
  "addTransceiver t st =
     (case pc st of
        None \<Rightarrow> st
      | Some p \<Rightarrow>
          st\<lparr> store := (store st)(nextRef st \<mapsto> t),
              nextRef := Suc (nextRef st),
              pc := Some (p\<lparr>pcTransceivers := pcTransceivers p @ [nextRef st]\<rparr>) \<rparr>)"

text \<open>Assignments through \<open>this.pc\<close> and \<open>this.ws\<close> where the source knows them non-null.\<close>

definition updPc :: "(peerConnection \<Rightarrow> peerConnection) \<Rightarrow> manager \<Rightarrow> manager" where
  "updPc f st = st\<lparr>pc := map_option f (pc st)\<rparr>"

definition updWs :: "(webSocket \<Rightarrow> webSocket) \<Rightarrow> manager \<Rightarrow> manager" where
  "updWs f st = st\<lparr>ws := map_option f (ws st)\<rparr>"

definition installConnectHandlers :: "peerConnection \<Rightarrow> peerConnection" where
  "installConnectHandlers p =
     p\<lparr>onicecandidate := True, onconnectionstatechange := True, ontrack := True\<rparr>"

definition freshPeerConnection :: peerConnection where
  "freshPeerConnection =
     \<lparr> onicecandidate = False, onconnectionstatechange = False, ontrack = False,
       onnegotiationneeded = False, pcConnectionState = New, pcTransceivers = [],
       remoteDescription = None, localDescription = None \<rparr>"

text \<open>
  The try block of \<open>connect\<close>. \<open>Inl\<close> is the state at the moment something threw:
  the constructor, or \<open>addTrack\<close> given the \<open>undefined\<close> that \<open>[0]\<close> of an empty track
  list is. \<open>Inr\<close> is the state after the join envelope.
\<close>

definition connectSetup :: "mediaStream \<Rightarrow> platform \<Rightarrow> manager \<Rightarrow> manager + manager" where
  "connectSetup localStream env st =
     (if \<not> newPeerConnectionOk env then Inl st
      else
        let st1 = (emit (Platform NewPeerConnection) st)\<lparr>pc := Some freshPeerConnection\<rparr>
        in (case videoTracks localStream of
              [] \<Rightarrow> Inl st1
            | v # _ \<Rightarrow>
                (let st2 = addTransceiver \<lparr>trDirection = Sendrecv, senderTrack = Some v\<rparr> st1
                 in (case audioTracks localStream of
                       [] \<Rightarrow> Inl st2
                     | a # _ \<Rightarrow>
                         (let st3 = addTransceiver \<lparr>trDirection = Sendrecv, senderTrack = Some a\<rparr> st2;
                              st4 = updPc installConnectHandlers st3;
                              st5 = updWs (onmessage_update (\<lambda>_. HandleWsMessage)) st4
                          in Inr (sendMessage ''join'' (PJoin (userName st5)) st5))))))"

definition connect :: "mediaStream \<Rightarrow> platform \<Rightarrow> manager \<Rightarrow> manager" where
  "connect localStream env st =
     (if \<not> wsOpen st then emit (Callback (OnError ''Signaling server not connected'')) st
      else
        case connectSetup localStream env (st\<lparr>exited := False\<rparr>) of
          Inr st' \<Rightarrow> st'
        | Inl st' \<Rightarrow>
            disconnect
              (emit (Callback (OnError ''Failed to start call''))
                 (emit (Console Error ''Error during connection setup:'') st')))"

definition stopScreenShare :: "string \<Rightarrow> manager \<Rightarrow> manager" where
  "stopScreenShare streamId st = sendMessage ''peerScreenShareStop'' (PStreamId streamId) st"

datatype outcome = Returned | Threw

definition setSenderTrack ::
  "nat \<Rightarrow> mediaStreamTrack \<Rightarrow> (nat \<rightharpoonup> transceiver) \<Rightarrow> (nat \<rightharpoonup> transceiver)" where
  "setSenderTrack r t h =
     (case h r of None \<Rightarrow> h | Some tr \<Rightarrow> h(r \<mapsto> tr\<lparr>senderTrack := Some t\<rparr>))"

definition setDirection ::
  "nat \<Rightarrow> direction \<Rightarrow> (nat \<rightharpoonup> transceiver) \<Rightarrow> (nat \<rightharpoonup> transceiver)" where
  "setDirection r d h =
     (case h r of None \<Rightarrow> h | Some tr \<Rightarrow> h(r \<mapsto> tr\<lparr>trDirection := d\<rparr>))"

text \<open>
  \<open>startScreenShare\<close> is an async function without a try around \<open>replaceTrack\<close>, and
  \<open>"contentHint" in screenTrack\<close> throws a TypeError when the stream has no video
  track: in both cases the promise rejects, which is the outcome \<open>Threw\<close>. The awaits
  are taken as atomic.
\<close>

definition startScreenShare :: "mediaStream \<Rightarrow> platform \<Rightarrow> manager \<Rightarrow> manager \<times> outcome" where
  "startScreenShare stream env st =
     (case screenShareVideoTransceiver st of
        None \<Rightarrow> (emit (Console Error ''No screen share video transceiver available'') st, Returned)
      | Some r \<Rightarrow>
          (case videoTracks stream of
             [] \<Rightarrow> (st, Threw)
           | screenTrack # _ \<Rightarrow>
               (let st1 = (if hasContentHint screenTrack
                           then emit (Platform (SetContentHint (trackId screenTrack) ''detail'')) st
                           else st)
                in if \<not> replaceTrackOk env then (st1, Threw)
                   else
                     let st2 = st1\<lparr>store := setSenderTrack r screenTrack (store st1)\<rparr>;
                         st3 = (if getParametersOk env \<and> setParametersOk env
                                then emit (Console Log ''Screen share configured for high resolution'')
                                       (emit (Platform (SetDegradationPreference r ''maintain-resolution'')) st2)
                                else emit (Console Log ''Failed to get screen share encoding parameters'') st2)
                     in (sendMessage ''screenShareRequest'' PEmpty st3, Returned))))"

definition handleIceCandidate :: "candidate option \<Rightarrow> manager \<Rightarrow> manager" where
  "handleIceCandidate c st =
     (case c of
        Some cand \<Rightarrow> sendMessage ''candidate'' (PCandidate cand) st
      | None \<Rightarrow> emit (Console Log ''Received invalid ICE candidate event: '') st)"

definition handleConnectionStateChange :: "manager \<Rightarrow> manager" where
  "handleConnectionStateChange st =
     (case pc st of
        None \<Rightarrow> st
      | Some p \<Rightarrow>
          (let st1 = emit (Console Log ''PC Connection update: '') st
           in (case pcConnectionState p of
                 Connected \<Rightarrow> emit (Callback (OnStatusChange ''active'')) st1
               | Disconnected \<Rightarrow> disconnect st1
               | Failed \<Rightarrow> disconnect st1
               | Closed \<Rightarrow> disconnect st1
               | _ \<Rightarrow> st1)))"

text \<open>\<open>s.includes(sub)\<close> on strings.\<close>

fun startsWith :: "string \<Rightarrow> string \<Rightarrow> bool" where
  "startsWith s [] = True"
| "startsWith [] (c # cs) = False"
| "startsWith (x # xs) (c # cs) = (x = c \<and> startsWith xs cs)"

fun includes_str :: "string \<Rightarrow> string \<Rightarrow> bool" where
  "includes_str [] sub = (sub = [])"
| "includes_str (x # xs) sub = (startsWith (x # xs) sub \<or> includes_str xs sub)"

text \<open>
  \<open>handleTrack\<close>, given \<open>event.streams\<close>. The validator \<open>validate\<close> of the uuid package
  is not part of the repository and is a parameter.
\<close>

definition handleTrack :: "(string \<Rightarrow> bool) \<Rightarrow> mediaStream list \<Rightarrow> manager \<Rightarrow> manager" where
  "handleTrack isValidUUID streams st =
     (let st0 = emit (Console Log ''Received remote track event: '') st
      in (case streams of
            [] \<Rightarrow> st0
          | remoteStream # _ \<Rightarrow>
              (let st1 =
                 (case pendingScreenShareIds st0 (msId remoteStream) of
                    Some peerId \<Rightarrow>
                      (emit (Callback (OnPeerScreenShare peerId remoteStream)) st0)
                        \<lparr>pendingScreenShareIds := (pendingScreenShareIds st0)(msId remoteStream := None)\<rparr>
                  | None \<Rightarrow>
                      (if isValidUUID (msId remoteStream)
                       then emit (Callback (OnRemoteStream remoteStream)) st0
                       else if includes_str (msId remoteStream) ''screen''
                       then st0\<lparr>pendingStreams := (pendingStreams st0)(msId remoteStream \<mapsto> remoteStream)\<rparr>
                       else emit (Console Warn ''Received remote stream with unrecognized ID: '') st0))
               in sendMessage ''pli'' PEmpty st1)))"

definition handleNegotiationNeeded :: "platform \<Rightarrow> manager \<Rightarrow> manager" where
  "handleNegotiationNeeded env st =
     (case pc st of
        None \<Rightarrow> st
      | Some p \<Rightarrow>
          (case createOfferSdp env of
             None \<Rightarrow> emit (Console Error ''Error during negotiationneeded handling: '') st
           | Some off \<Rightarrow>
               (if \<not> setLocalDescriptionOk env
                then emit (Console Error ''Error during negotiationneeded handling: '') st
                else sendMessage ''offer'' (PDescription (Some (''offer'', off)))
                       (updPc (localDescription_update (\<lambda>_. Some (''offer'', off))) st))))"

text \<open>
  Applying a remote offer creates the transceivers the offer asks for and that the
  connection does not have yet; they start receive-only and without a track to send.
\<close>

fun addRecvTransceivers :: "nat \<Rightarrow> manager \<Rightarrow> manager" where
  "addRecvTransceivers 0 st = st"
| "addRecvTransceivers (Suc k) st =
     addRecvTransceivers k (addTransceiver \<lparr>trDirection = Recvonly, senderTrack = None\<rparr> st)"

definition digit :: "nat \<Rightarrow> string" where
  "digit n = (if n = 0 then ''0'' else if n = 1 then ''1'' else if n = 2 then ''2'' else ''3'')"

text \<open>
  Lines 258 to 268: the screen share transceivers are taken from positions 2 and 3.
  The warning prints the length, which is below 4 there.
\<close>

definition storeScreenShareTransceivers :: "manager \<Rightarrow> manager" where
  "storeScreenShareTransceivers st =
     (case pc st of
        None \<Rightarrow> st
      | Some p \<Rightarrow>
          (let transceivers = pcTransceivers p
           in if length transceivers \<ge> 4
              then st\<lparr> screenShareVideoTransceiver := Some (transceivers ! 2),
                       screenShareAudioTransceiver := Some (transceivers ! 3),
                       store := setDirection (transceivers ! 2) Sendonly
                                  (setDirection (transceivers ! 3) Sendonly (store st)) \<rparr>
              else emit (Console Warn (''Expected at least 4 transceivers, found ''
                           @ digit (length transceivers)
                           @ '', no screen share transceivers stored'')) st))"

text \<open>
  Lines 256 to 268 once \<open>setRemoteDescription\<close> has resolved: the description is set,
  the \<open>k\<close> new transceivers exist, and the screen share transceivers have been looked up.
\<close>

definition applyRemoteOffer :: "sdp \<Rightarrow> nat \<Rightarrow> manager \<Rightarrow> manager" where
  "applyRemoteOffer offer k st =
     storeScreenShareTransceivers
       (addRecvTransceivers k (updPc (remoteDescription_update (\<lambda>_. Some (''offer'', offer))) st))"

text \<open>
  The body of each case of the switch; \<open>Inl\<close> is the state when an awaited call
  rejected, which the catch of \<open>handleWsMessage\<close> receives. A handler runs as one
  step: no other event is taken between its awaits.
\<close>

definition handleOffer :: "sdp \<Rightarrow> platform \<Rightarrow> manager \<Rightarrow> manager + manager" where
  "handleOffer offer env st =
     (case setRemoteDescriptionNew env of
        None \<Rightarrow> Inl st
      | Some k \<Rightarrow>
          (let st2 = applyRemoteOffer offer k st
           in (case createAnswerSdp env of
                 None \<Rightarrow> Inl st2
               | Some ans \<Rightarrow>
                   (if \<not> setLocalDescriptionOk env then Inl st2
                    else
                      let st3 = updPc (localDescription_update (\<lambda>_. Some (''answer'', ans))) st2;
                          st4 = sendMessage ''answer'' (PDescription (Some (''answer'', ans))) st3
                      in Inr (emit (Platform SetOnNegotiationNeeded)
                                (updPc (onnegotiationneeded_update (\<lambda>_. True)) st4))))))"

definition handleAnswer :: "sdp \<Rightarrow> platform \<Rightarrow> manager \<Rightarrow> manager + manager" where
  "handleAnswer answer env st =
     (case setRemoteDescriptionNew env of
        None \<Rightarrow> Inl st
      | Some k \<Rightarrow> Inr (updPc (remoteDescription_update (\<lambda>_. Some (''answer'', answer))) st))"

definition handlePeerScreenShare :: "string \<Rightarrow> string \<Rightarrow> manager \<Rightarrow> manager" where
  "handlePeerScreenShare streamId peerId st =
     (case pendingStreams st streamId of
        Some screenStream \<Rightarrow>
          emit (Callback (OnPeerScreenShare peerId screenStream))
            (st\<lparr>pendingStreams := (pendingStreams st)(streamId := None)\<rparr>)
      | None \<Rightarrow>
          st\<lparr>pendingScreenShareIds := (pendingScreenShareIds st)(streamId \<mapsto> peerId)\<rparr>)"

definition handlePeerScreenShareStop :: "string \<Rightarrow> manager \<Rightarrow> manager" where
  "handlePeerScreenShareStop peerId st =
     (if pendingStreams st peerId \<noteq> None
      then st\<lparr>pendingStreams := (pendingStreams st)(peerId := None)\<rparr>
      else if pendingScreenShareIds st peerId \<noteq> None
      then st\<lparr>pendingScreenShareIds := (pendingScreenShareIds st)(peerId := None)\<rparr>
      else emit (Callback (OnPeerScreenShareStopped peerId)) st)"

fun dispatch :: "inbound \<Rightarrow> platform \<Rightarrow> manager \<Rightarrow> manager + manager" where
  "dispatch (InOffer offer) env st = handleOffer offer env st"
| "dispatch (InAnswer answer) env st = handleAnswer answer env st"
| "dispatch (InCandidate c) env st = (if addIceCandidateOk env then Inr st else Inl st)"
| "dispatch (InPeerExit peerId peerName) env st =
     Inr (emit (Callback OnRemoteStreamStopped) (emit (Callback (OnPeerExit peerId peerName)) st))"
| "dispatch (InPeerScreenShare streamId peerId) env st = Inr (handlePeerScreenShare streamId peerId st)"
| "dispatch (InPeerScreenShareStop peerId) env st = Inr (handlePeerScreenShareStop peerId st)"
| "dispatch (InOther ty) env st = Inr (emit (Console Warn (''Unhandled WS message type: '' @ ty)) st)"

text \<open>
  \<open>handleWsMessage\<close>: \<open>JSON.parse\<close> is outside the try, so unparseable data rejects
  the promise; everything else is caught and logged.
\<close>

definition handleWsMessage :: "wsData \<Rightarrow> platform \<Rightarrow> manager \<Rightarrow> manager \<times> outcome" where
  "handleWsMessage data env st =
     (case pc st of
        None \<Rightarrow> (st, Returned)
      | Some p \<Rightarrow>
          (case data of
             Unparseable \<Rightarrow> (st, Threw)
           | Parsed msg \<Rightarrow>
               (case dispatch msg env (emit (Console Log ''msg (call active): '') st) of
                  Inr st' \<Rightarrow> (st', Returned)
                | Inl st' \<Rightarrow> (emit (Console Error ''Error in WS message handler: '') st', Returned))))"

section \<open>Events\<close>

text \<open>
  The calls of the public methods and the events of the socket and of the connection
  that reach the manager. A platform event runs the handler that is installed at that
  moment, if any. Only the socket and the connection that the manager currently
  references raise events; an object replaced by a second \<open>initSignalingConnection\<close> or
  \<open>connect\<close> is taken to be silent. The callbacks supplied by the application are
  taken not to throw.
\<close>

datatype event =
    InitSignalingConnection
  | Connect mediaStream platform
  | StartScreenShare mediaStream platform
  | StopScreenShare string
  | Disconnect
  | Cleanup
  | WsOpened
  | WsClosed
  | WsErrored
  | WsMessage wsData platform
  | IceCandidate "candidate option"
  | ConnectionStateChange connectionState
  | Track "mediaStream list"
  | NegotiationNeeded platform

definition wsMessageEvent :: "wsData \<Rightarrow> platform \<Rightarrow> manager \<Rightarrow> manager" where
  "wsMessageEvent data env st =
     (case ws st of
        None \<Rightarrow> st
      | Some w \<Rightarrow>
          (case onmessage w of
             LogWebrtcInactive \<Rightarrow>
               (if data = Unparseable then st else emit (Console Log ''WS msg (webrtc inactive): '') st)
           | LogInactive \<Rightarrow>
               (if data = Unparseable then st else emit (Console Log ''WS msg (inactive): '') st)
           | HandleWsMessage \<Rightarrow> fst (handleWsMessage data env st)))"

fun step :: "(string \<Rightarrow> bool) \<Rightarrow> event \<Rightarrow> manager \<Rightarrow> manager" where
  "step V InitSignalingConnection st = initSignalingConnection st"
| "step V (Connect localStream env) st = connect localStream env st"
| "step V (StartScreenShare stream env) st = fst (startScreenShare stream env st)"
| "step V (StopScreenShare streamId) st = stopScreenShare streamId st"
| "step V Disconnect st = disconnect st"
| "step V Cleanup st = cleanup st"
| "step V WsOpened st =
     (case ws st of
        None \<Rightarrow> st
      | Some w \<Rightarrow> emit (Console Log ''WebSocket connected.'') (updWs (readyState_update (\<lambda>_. OPEN)) st))"
| "step V WsClosed st =
     (case ws st of
        None \<Rightarrow> st
      | Some w \<Rightarrow>
          disconnect (emit (Console Log ''WebSocket disconnected'')
                        (updWs (readyState_update (\<lambda>_. CLOSED)) st)))"
| "step V WsErrored st =
     (case ws st of
        None \<Rightarrow> st
      | Some w \<Rightarrow>
          emit (Callback (OnError ''Signaling server connection failed''))
            (emit (Console Error ''Websocket error: '') st))"
| "step V (WsMessage data env) st = wsMessageEvent data env st"
| "step V (IceCandidate c) st =
     (case pc st of
        None \<Rightarrow> st
      | Some p \<Rightarrow> if onicecandidate p then handleIceCandidate c st else st)"
| "step V (ConnectionStateChange s) st =
     (case pc st of
        None \<Rightarrow> st
      | Some p \<Rightarrow>
          (let st1 = updPc (pcConnectionState_update (\<lambda>_. s)) st
           in if onconnectionstatechange p then handleConnectionStateChange st1 else st1))"
| "step V (Track streams) st =
     (case pc st of
        None \<Rightarrow> st
      | Some p \<Rightarrow> if ontrack p then handleTrack V streams st else st)"
| "step V (NegotiationNeeded env) st =
     (case pc st of
        None \<Rightarrow> st
      | Some p \<Rightarrow> if onnegotiationneeded p then handleNegotiationNeeded env st else st)"

fun run :: "(string \<Rightarrow> bool) \<Rightarrow> event list \<Rightarrow> manager \<Rightarrow> manager" where
  "run V [] st = st"
| "run V (e # es) st = run V es (step V e st)"

section \<open>Vocabulary of the properties\<close>

text \<open>The effects added between an earlier state and a later one.\<close>

definition effectsSince :: "manager \<Rightarrow> manager \<Rightarrow> effect list" where
  "effectsSince st st' = drop (length (effects st)) (effects st')"

text \<open>No stream id is a key of both pending maps.\<close>

definition buffersDisjoint :: "manager \<Rightarrow> bool" where
  "buffersDisjoint st = (dom (pendingStreams st) \<inter> dom (pendingScreenShareIds st) = {})"

definition buffersOf :: "manager \<Rightarrow> (string \<rightharpoonup> mediaStream) \<times> (string \<rightharpoonup> string)" where
  "buffersOf st = (pendingStreams st, pendingScreenShareIds st)"

text \<open>
  Transceiver references are allocated in order, and the transceivers of the connection
  are distinct allocated references.
\<close>

definition wellFormed :: "manager \<Rightarrow> bool" where
  "wellFormed st =
     (dom (store st) = {..<nextRef st} \<and>
      (case pc st of
         None \<Rightarrow> True
       | Some p \<Rightarrow> distinct (pcTransceivers p) \<and> set (pcTransceivers p) \<subseteq> {..<nextRef st}))"

text \<open>What well-formedness depends on.\<close>

definition shapeOf :: "manager \<Rightarrow> nat set \<times> nat \<times> nat list option" where
  "shapeOf st = (dom (store st), nextRef st, map_option pcTransceivers (pc st))"

text \<open>The events that run the \<open>offer\<close> case of \<open>handleWsMessage\<close>.\<close>

definition isOfferEvent :: "event \<Rightarrow> bool" where
  "isOfferEvent e = (case e of WsMessage (Parsed (InOffer offer)) env \<Rightarrow> True | _ \<Rightarrow> False)"

subsection \<open>Correlation of one stream id\<close>

text \<open>
  The invocations of \<open>onPeerScreenShare\<close> whose stream has the id \<open>s\<close>, in order.
\<close>

definition isStartFor :: "string \<Rightarrow> effect \<Rightarrow> bool" where
  "isStartFor s e = (case e of Callback (OnPeerScreenShare q strm) \<Rightarrow> msId strm = s | _ \<Rightarrow> False)"

definition startsFor :: "string \<Rightarrow> manager \<Rightarrow> callback list" where
  "startsFor s st = callbacksOf (filter (isStartFor s) (effects st))"

text \<open>Every buffered stream is stored under its own id.\<close>

definition keyed :: "manager \<Rightarrow> bool" where
  "keyed st = (\<forall>k strm. pendingStreams st k = Some strm \<longrightarrow> msId strm = k)"

text \<open>
  The inbound messages and the events that are about the stream id \<open>s\<close>: an
  announcement for \<open>s\<close>, a stop message carrying \<open>s\<close>, a track event whose first stream
  has the id \<open>s\<close>.
\<close>

definition aboutMessage :: "string \<Rightarrow> inbound \<Rightarrow> bool" where
  "aboutMessage s m =
     (case m of InPeerScreenShare streamId peerId \<Rightarrow> streamId = s
              | InPeerScreenShareStop peerId \<Rightarrow> peerId = s
              | _ \<Rightarrow> False)"

definition concerns :: "string \<Rightarrow> event \<Rightarrow> bool" where
  "concerns s e =
     (case e of
        Track streams \<Rightarrow> (case streams of [] \<Rightarrow> False | r # _ \<Rightarrow> msId r = s)
      | WsMessage d env \<Rightarrow>
          (case d of
             Parsed (InPeerScreenShare streamId peerId) \<Rightarrow> streamId = s
           | Parsed (InPeerScreenShareStop peerId) \<Rightarrow> peerId = s
           | _ \<Rightarrow> False)
      | _ \<Rightarrow> False)"

text \<open>What is pending for \<open>s\<close> and what has fired for it.\<close>

definition aboutOf :: "string \<Rightarrow> manager \<Rightarrow> mediaStream option \<times> string option \<times> callback list" where
  "aboutOf s st = (pendingStreams st s, pendingScreenShareIds st s, startsFor s st)"

text \<open>
  A track event reaches \<open>handleTrack\<close> when the connection exists and has the handler
  installed; a socket message reaches the switch of \<open>handleWsMessage\<close> when that
  function is the socket's \<open>onmessage\<close> and the connection exists.
\<close>

definition trackHandled :: "manager \<Rightarrow> bool" where
  "trackHandled st = (case pc st of None \<Rightarrow> False | Some p \<Rightarrow> ontrack p)"

definition messageHandled :: "manager \<Rightarrow> bool" where
  "messageHandled st =
     (pc st \<noteq> None \<and> (case ws st of None \<Rightarrow> False | Some w \<Rightarrow> onmessage w = HandleWsMessage))"

subsection \<open>A sample session\<close>

definition sampleCamera :: mediaStream where
  "sampleCamera =
     \<lparr> msId = ''cam-1'',
       videoTracks = [\<lparr>trackId = ''cam-video'', hasContentHint = True\<rparr>],
       audioTracks = [\<lparr>trackId = ''cam-audio'', hasContentHint = False\<rparr>] \<rparr>"

definition sampleScreen :: mediaStream where
  "sampleScreen =
     \<lparr> msId = ''screen-1'',
       videoTracks = [\<lparr>trackId = ''screen-video'', hasContentHint = True\<rparr>],
       audioTracks = [] \<rparr>"

definition samplePlatform :: platform where
  "samplePlatform =
     \<lparr> newPeerConnectionOk = True, setRemoteDescriptionNew = Some 2,
       createAnswerSdp = Some ''answer-sdp'', createOfferSdp = Some ''offer-sdp'',
       setLocalDescriptionOk = True, addIceCandidateOk = True, replaceTrackOk = True,
       getParametersOk = True, setParametersOk = True \<rparr>"

text \<open>No string counts as a UUID for the sample validator.\<close>

definition sampleValidator :: "string \<Rightarrow> bool" where
  "sampleValidator s = False"

text \<open>A manager whose socket has opened and whose \<open>connect\<close> has completed.\<close>

definition sampleConnected :: manager where
  "sampleConnected =
     run sampleValidator
       [InitSignalingConnection, WsOpened, Connect sampleCamera samplePlatform]
       (newManager ''room-1'' ''client-1'' ''alice'')"

text \<open>A manager whose socket has been created and has not opened yet.\<close>

definition sampleUnopened :: manager where
  "sampleUnopened = initSignalingConnection (newManager ''room-1'' ''client-1'' ''alice'')"

text \<open>A platform that rejects the remote description, and one whose offer adds no transceiver.\<close>

definition sampleRejectingPlatform :: platform where
  "sampleRejectingPlatform = samplePlatform\<lparr>setRemoteDescriptionNew := None\<rparr>"

definition sampleBarePlatform :: platform where
  "sampleBarePlatform = samplePlatform\<lparr>setRemoteDescriptionNew := Some 0\<rparr>"

text \<open>
  The sample session after an offer that leaves the connection with its two camera
  transceivers, and after a second offer that brings two more.
\<close>

definition sampleSmallOffer :: manager where
  "sampleSmallOffer =
     fst (handleWsMessage (Parsed (InOffer ''offer-1'')) sampleBarePlatform sampleConnected)"

definition sampleLargeOffer :: manager where
  "sampleLargeOffer =
     fst (handleWsMessage (Parsed (InOffer ''offer-2'')) samplePlatform sampleSmallOffer)"

text \<open>
  The sample session left and joined again after the second offer, and then an offer
  that leaves the new connection with its two camera transceivers.
\<close>

definition sampleRejoined :: manager where
  "sampleRejoined =
     fst (handleWsMessage (Parsed (InOffer ''offer-3'')) sampleBarePlatform
            (connect sampleCamera samplePlatform (disconnect sampleLargeOffer)))"

text \<open>The client id of another participant, a UUID as \<open>RoomFeed.tsx\<close> generates them.\<close>

definition samplePeerId :: string where
  "samplePeerId = ''6f1c2a9e-0b7d-4c3a-9e51-2d8f4b7a1c03''"

section \<open>Basic facts about the operations\<close>

lemma sentOf_append: "sentOf (xs @ ys) = sentOf xs @ sentOf ys"
  by (induction xs rule: sentOf.induct) simp_all

lemma callbacksOf_append: "callbacksOf (xs @ ys) = callbacksOf xs @ callbacksOf ys"
  by (induction xs rule: callbacksOf.induct) simp_all

lemma effectsSince_append: "effects st' = effects st @ xs \<Longrightarrow> effectsSince st st' = xs"
  by (simp add: effectsSince_def)

lemma emit_fields:
  "ws (emit e st) = ws st" "pc (emit e st) = pc st" "roomId (emit e st) = roomId st"
  "clientId (emit e st) = clientId st" "userName (emit e st) = userName st"
  "screenShareVideoTransceiver (emit e st) = screenShareVideoTransceiver st"
  "screenShareAudioTransceiver (emit e st) = screenShareAudioTransceiver st"
  "exited (emit e st) = exited st" "pendingStreams (emit e st) = pendingStreams st"
  "pendingScreenShareIds (emit e st) = pendingScreenShareIds st"
  "store (emit e st) = store st" "nextRef (emit e st) = nextRef st"
  "effects (emit e st) = effects st @ [e]" "wsOpen (emit e st) = wsOpen st"
  by (simp_all add: emit_def wsOpen_def)

lemma sendMessage_fields:
  "ws (sendMessage t p st) = ws st" "pc (sendMessage t p st) = pc st" "roomId (sendMessage t p st) = roomId st"
  "clientId (sendMessage t p st) = clientId st" "userName (sendMessage t p st) = userName st"
  "screenShareVideoTransceiver (sendMessage t p st) = screenShareVideoTransceiver st"
  "screenShareAudioTransceiver (sendMessage t p st) = screenShareAudioTransceiver st"
  "exited (sendMessage t p st) = exited st" "pendingStreams (sendMessage t p st) = pendingStreams st"
  "pendingScreenShareIds (sendMessage t p st) = pendingScreenShareIds st"
  "store (sendMessage t p st) = store st" "nextRef (sendMessage t p st) = nextRef st"
  "wsOpen (sendMessage t p st) = wsOpen st"
  "callbacksOf (effects (sendMessage t p st)) = callbacksOf (effects st)"
  by (simp_all add: sendMessage_def emit_fields callbacksOf_append)

lemma sendMessage_effects:
  "effects (sendMessage t p st) = effects st @
     [if wsOpen st then Send (SignalMessage t (clientId st) (roomId st) p)
      else Console Error (''Cannot send message, WebSocket is not available. Type: '' @ t)]"
  by (simp add: sendMessage_def emit_fields)

lemma handlePeerScreenShare_pending:
  "pendingStreams st s = Some strm \<Longrightarrow>
     handlePeerScreenShare s p st =
       st\<lparr>pendingStreams := (pendingStreams st)(s := None),
          effects := effects st @ [Callback (OnPeerScreenShare p strm)]\<rparr>"
  "pendingStreams st s = None \<Longrightarrow>
     handlePeerScreenShare s p st = st\<lparr>pendingScreenShareIds := (pendingScreenShareIds st)(s \<mapsto> p)\<rparr>"
  by (simp_all add: handlePeerScreenShare_def emit_def)

lemma handleWsMessage_share:
  "pc st \<noteq> None \<Longrightarrow>
   handleWsMessage (Parsed (InPeerScreenShare s p)) env st =
     (handlePeerScreenShare s p (emit (Console Log ''msg (call active): '') st), Returned)"
  by (auto simp: handleWsMessage_def)

lemma handleTrack_owned:
  "pendingScreenShareIds st (msId strm) = Some p \<Longrightarrow>
   handleTrack V (strm # rest) st =
     sendMessage ''pli'' PEmpty
       (st\<lparr>effects := effects st @ [Console Log ''Received remote track event: '',
                                    Callback (OnPeerScreenShare p strm)],
           pendingScreenShareIds := (pendingScreenShareIds st)(msId strm := None)\<rparr>)"
  by (simp add: handleTrack_def emit_def)

lemma handleTrack_screen:
  "pendingScreenShareIds st (msId strm) = None \<Longrightarrow> \<not> V (msId strm) \<Longrightarrow>
   includes_str (msId strm) ''screen'' \<Longrightarrow>
   handleTrack V (strm # rest) st =
     sendMessage ''pli'' PEmpty
       (st\<lparr>effects := effects st @ [Console Log ''Received remote track event: ''],
           pendingStreams := (pendingStreams st)(msId strm \<mapsto> strm)\<rparr>)"
  by (simp add: handleTrack_def emit_def)

subsection \<open>Operations that leave the pending maps alone\<close>

lemma buffersOf_emit: "buffersOf (emit e st) = buffersOf st"
  by (simp add: buffersOf_def emit_fields)

lemma buffersOf_sendMessage: "buffersOf (sendMessage t p st) = buffersOf st"
  by (simp add: buffersOf_def sendMessage_fields)

lemma buffersOf_disconnect: "buffersOf (disconnect st) = buffersOf st"
  by (simp add: disconnect_def Let_def buffersOf_emit buffersOf_sendMessage split: option.splits)
     (simp add: buffersOf_def emit_fields sendMessage_fields)

lemma buffersOf_updPc: "buffersOf (updPc f st) = buffersOf st"
  by (simp add: buffersOf_def updPc_def)

lemma buffersOf_updWs: "buffersOf (updWs f st) = buffersOf st"
  by (simp add: buffersOf_def updWs_def)

lemma buffersOf_addTransceiver: "buffersOf (addTransceiver t st) = buffersOf st"
  by (simp add: buffersOf_def addTransceiver_def split: option.splits)

lemma buffersOf_addRecvTransceivers: "buffersOf (addRecvTransceivers k st) = buffersOf st"
  by (induction k arbitrary: st) (simp_all add: buffersOf_addTransceiver)

lemma buffersOf_connectSetup:
  "connectSetup ls env st = Inl st' \<or> connectSetup ls env st = Inr st' \<Longrightarrow> buffersOf st' = buffersOf st"
  by (auto simp: connectSetup_def Let_def buffersOf_emit buffersOf_sendMessage buffersOf_updPc
        buffersOf_updWs buffersOf_addTransceiver split: if_splits list.splits)
     (simp_all add: buffersOf_def emit_fields)

lemma buffersOf_connect: "buffersOf (connect ls env st) = buffersOf st"
proof -
  have "buffersOf (st\<lparr>exited := False\<rparr>) = buffersOf st" by (simp add: buffersOf_def)
  then show ?thesis
    using buffersOf_connectSetup[of ls env "st\<lparr>exited := False\<rparr>"]
    by (auto simp: connect_def buffersOf_emit buffersOf_disconnect split: sum.splits)
qed

lemma buffersOf_init: "buffersOf (initSignalingConnection st) = buffersOf st"
  by (simp add: initSignalingConnection_def buffersOf_def emit_fields)

lemma buffersOf_cleanup: "buffersOf (cleanup st) = buffersOf st"
  using buffersOf_disconnect[of st]
  by (simp add: cleanup_def Let_def split: option.splits) (simp add: buffersOf_def emit_fields)

lemma buffersOf_startScreenShare: "buffersOf (fst (startScreenShare s env st)) = buffersOf st"
  by (simp add: startScreenShare_def Let_def buffersOf_emit buffersOf_sendMessage split: option.splits list.splits)
     (simp add: buffersOf_def emit_fields)

lemma buffersOf_stopScreenShare: "buffersOf (stopScreenShare x st) = buffersOf st"
  by (simp add: stopScreenShare_def buffersOf_sendMessage)

lemma buffersOf_handleIceCandidate: "buffersOf (handleIceCandidate c st) = buffersOf st"
  by (simp add: handleIceCandidate_def buffersOf_emit buffersOf_sendMessage split: option.splits)

lemma buffersOf_handleConnectionStateChange: "buffersOf (handleConnectionStateChange st) = buffersOf st"
  by (simp add: handleConnectionStateChange_def Let_def buffersOf_emit buffersOf_disconnect
        split: option.splits connectionState.splits)

lemma buffersOf_handleNegotiationNeeded: "buffersOf (handleNegotiationNeeded env st) = buffersOf st"
  by (simp add: handleNegotiationNeeded_def buffersOf_emit buffersOf_sendMessage buffersOf_updPc
        split: option.splits)

lemma buffersOf_storeScreenShareTransceivers: "buffersOf (storeScreenShareTransceivers st) = buffersOf st"
  by (simp add: storeScreenShareTransceivers_def Let_def buffersOf_emit split: option.splits)
     (simp add: buffersOf_def)

lemma buffersOf_applyRemoteOffer: "buffersOf (applyRemoteOffer offer k st) = buffersOf st"
  by (simp add: applyRemoteOffer_def buffersOf_storeScreenShareTransceivers
        buffersOf_addRecvTransceivers buffersOf_updPc)

lemma buffersOf_handleOffer:
  "handleOffer sdp env st = Inl st' \<or> handleOffer sdp env st = Inr st' \<Longrightarrow> buffersOf st' = buffersOf st"
  by (auto simp: handleOffer_def Let_def buffersOf_emit buffersOf_sendMessage buffersOf_updPc
        buffersOf_applyRemoteOffer split: option.splits if_splits)

lemma buffersOf_handleAnswer:
  "handleAnswer sdp env st = Inl st' \<or> handleAnswer sdp env st = Inr st' \<Longrightarrow> buffersOf st' = buffersOf st"
  by (auto simp: handleAnswer_def buffersOf_updPc split: option.splits)

lemma buffersDisjoint_buffersOf: "buffersOf st' = buffersOf st \<Longrightarrow> buffersDisjoint st' = buffersDisjoint st"
  by (simp add: buffersOf_def buffersDisjoint_def)

lemma buffersDisjoint_iff:
  "buffersDisjoint st = (\<forall>s. pendingStreams st s = None \<or> pendingScreenShareIds st s = None)"
proof -
  have "dom (pendingStreams st) \<inter> dom (pendingScreenShareIds st) = {} \<longleftrightarrow>
        (\<forall>s. \<not> (s \<in> dom (pendingStreams st) \<and> s \<in> dom (pendingScreenShareIds st)))"
    by blast
  then show ?thesis by (simp add: buffersDisjoint_def domIff)
qed

lemma disjoint_handlePeerScreenShare:
  "buffersDisjoint st \<Longrightarrow> buffersDisjoint (handlePeerScreenShare s p st)"
  unfolding buffersDisjoint_iff handlePeerScreenShare_def
  by (cases "pendingStreams st s") (simp_all add: emit_fields)

lemma disjoint_handlePeerScreenShareStop:
  "buffersDisjoint st \<Longrightarrow> buffersDisjoint (handlePeerScreenShareStop x st)"
  unfolding buffersDisjoint_iff handlePeerScreenShareStop_def
  by (simp add: emit_fields)

lemma disjoint_classify:
  assumes "buffersDisjoint st"
  shows "buffersDisjoint
     (case pendingScreenShareIds st (msId r) of
        Some peerId \<Rightarrow>
          (emit (Callback (OnPeerScreenShare peerId r)) st)
            \<lparr>pendingScreenShareIds := (pendingScreenShareIds st)(msId r := None)\<rparr>
      | None \<Rightarrow>
          (if V (msId r) then emit (Callback (OnRemoteStream r)) st
           else if includes_str (msId r) ''screen''
           then st\<lparr>pendingStreams := (pendingStreams st)(msId r \<mapsto> r)\<rparr>
           else emit (Console Warn ''Received remote stream with unrecognized ID: '') st))"
  using assms unfolding buffersDisjoint_iff
  by (cases "pendingScreenShareIds st (msId r)") (simp_all add: emit_fields)

lemma disjoint_handleTrack:
  assumes "buffersDisjoint st"
  shows "buffersDisjoint (handleTrack V streams st)"
proof (cases streams)
  case Nil
  then show ?thesis using assms
    by (simp add: handleTrack_def buffersDisjoint_buffersOf[OF buffersOf_emit])
next
  case (Cons r rest)
  let ?st0 = "emit (Console Log ''Received remote track event: '') st"
  have "buffersDisjoint ?st0"
    using assms by (simp add: buffersDisjoint_buffersOf[OF buffersOf_emit])
  from disjoint_classify[OF this, where r=r and V=V] Cons show ?thesis
    by (simp add: handleTrack_def Let_def buffersDisjoint_buffersOf[OF buffersOf_sendMessage])
qed

lemma disjoint_dispatch:
  assumes "buffersDisjoint st" "dispatch m env st = Inl st' \<or> dispatch m env st = Inr st'"
  shows "buffersDisjoint st'"
proof (cases m)
  case (InOffer x)
  with assms(2) have "buffersOf st' = buffersOf st"
    using buffersOf_handleOffer[of x env st st'] by simp
  from buffersDisjoint_buffersOf[OF this] assms(1) show ?thesis by simp
next
  case (InAnswer x)
  with assms(2) have "buffersOf st' = buffersOf st"
    using buffersOf_handleAnswer[of x env st st'] by simp
  from buffersDisjoint_buffersOf[OF this] assms(1) show ?thesis by simp
next
  case (InCandidate c) then show ?thesis
    using assms by (auto split: if_splits)
next
  case (InPeerExit a b) then show ?thesis
    using assms by (auto simp: buffersDisjoint_buffersOf[OF buffersOf_emit])
next
  case (InPeerScreenShare s p) then show ?thesis
    using assms by (auto simp: disjoint_handlePeerScreenShare)
next
  case (InPeerScreenShareStop x) then show ?thesis
    using assms by (auto simp: disjoint_handlePeerScreenShareStop)
next
  case (InOther ty) then show ?thesis
    using assms by (auto simp: buffersDisjoint_buffersOf[OF buffersOf_emit])
qed

lemma disjoint_handleWsMessage:
  assumes "buffersDisjoint st"
  shows "buffersDisjoint (fst (handleWsMessage d env st))"
proof (cases "pc st")
  case None
  then show ?thesis using assms by (simp add: handleWsMessage_def)
next
  case (Some p)
  show ?thesis
  proof (cases d)
    case Unparseable
    then show ?thesis using assms Some by (simp add: handleWsMessage_def)
  next
    case (Parsed m)
    let ?st0 = "emit (Console Log ''msg (call active): '') st"
    have d0: "buffersDisjoint ?st0"
      using assms by (simp add: buffersDisjoint_buffersOf[OF buffersOf_emit])
    show ?thesis
    proof (cases "dispatch m env ?st0")
      case (Inl st')
      with disjoint_dispatch[OF d0, of m env st'] have "buffersDisjoint st'" by simp
      then show ?thesis using Some Parsed Inl
        by (simp add: handleWsMessage_def buffersDisjoint_buffersOf[OF buffersOf_emit])
    next
      case (Inr st')
      with disjoint_dispatch[OF d0, of m env st'] have "buffersDisjoint st'" by simp
      then show ?thesis using Some Parsed Inr by (simp add: handleWsMessage_def)
    qed
  qed
qed

lemma buffersOf_step:
  assumes "\<forall>d env. e \<noteq> WsMessage d env" "\<forall>streams. e \<noteq> Track streams"
  shows "buffersOf (step V e st) = buffersOf st"
  using assms
  by (cases e)
     (simp_all add: buffersOf_init buffersOf_connect buffersOf_startScreenShare
       buffersOf_stopScreenShare buffersOf_disconnect buffersOf_cleanup buffersOf_emit buffersOf_updWs
       buffersOf_updPc buffersOf_handleIceCandidate buffersOf_handleConnectionStateChange
       buffersOf_handleNegotiationNeeded Let_def split: option.splits)

lemma disjoint_step:
  assumes "buffersDisjoint st"
  shows "buffersDisjoint (step V e st)"
proof (cases e)
  case (WsMessage d env)
  then show ?thesis using assms
    by (simp add: wsMessageEvent_def disjoint_handleWsMessage buffersDisjoint_buffersOf[OF buffersOf_emit]
          split: option.splits wsHandler.splits)
next
  case (Track streams)
  then show ?thesis using assms
    by (simp add: disjoint_handleTrack split: option.splits)
qed (use assms buffersDisjoint_buffersOf[OF buffersOf_step, of e V st] in simp_all)

lemma disjoint_run: "buffersDisjoint st \<Longrightarrow> buffersDisjoint (run V es st)"
  by (induction es arbitrary: st) (simp_all add: disjoint_step)

subsection \<open>The sample session, evaluated\<close>

lemma sampleConnected_eq:
  "sampleConnected =
     \<lparr> ws = Some \<lparr>readyState = OPEN, onmessage = HandleWsMessage\<rparr>,
       pc = Some \<lparr> onicecandidate = True, onconnectionstatechange = True, ontrack = True,
                   onnegotiationneeded = False, pcConnectionState = New, pcTransceivers = [0, 1],
                   remoteDescription = None, localDescription = None \<rparr>,
       roomId = ''room-1'', clientId = ''client-1'', userName = ''alice'',
       screenShareVideoTransceiver = None, screenShareAudioTransceiver = None,
       exited = False, pendingStreams = Map.empty, pendingScreenShareIds = Map.empty,
       store = [0 \<mapsto> \<lparr>trDirection = Sendrecv,
                            senderTrack = Some \<lparr>trackId = ''cam-video'', hasContentHint = True\<rparr>\<rparr>,
                1 \<mapsto> \<lparr>trDirection = Sendrecv,
                            senderTrack = Some \<lparr>trackId = ''cam-audio'', hasContentHint = False\<rparr>\<rparr>],
       nextRef = 2,
       effects = [Platform NewWebSocket, Console Log ''WebSocket connected.'',
                  Platform NewPeerConnection,
                  Send (SignalMessage ''join'' ''client-1'' ''room-1'' (PJoin ''alice''))] \<rparr>"
  by (simp add: sampleConnected_def newManager_def initSignalingConnection_def emit_def updWs_def
        connect_def wsOpen_def connectSetup_def sampleCamera_def samplePlatform_def
        addTransceiver_def freshPeerConnection_def updPc_def installConnectHandlers_def
        sendMessage_def Let_def)

subsection \<open>Disconnecting and connecting\<close>

lemma disconnect_fields:
  "roomId (disconnect st) = roomId st" "clientId (disconnect st) = clientId st"
  "userName (disconnect st) = userName st"
  "screenShareVideoTransceiver (disconnect st) = screenShareVideoTransceiver st"
  "screenShareAudioTransceiver (disconnect st) = screenShareAudioTransceiver st"
  "store (disconnect st) = store st" "nextRef (disconnect st) = nextRef st"
  "wsOpen (disconnect st) = wsOpen st"
  "exited (disconnect st)"
  by (simp_all add: disconnect_def Let_def emit_fields sendMessage_fields wsOpen_def split: option.splits)

lemma disconnect_ws:
  "ws (disconnect st) = (if exited st then ws st else map_option (onmessage_update (\<lambda>_. LogInactive)) (ws st))"
  by (simp add: disconnect_def Let_def emit_fields sendMessage_fields split: option.splits)

lemma disconnect_effects:
  "effects (disconnect st) = effects st @
     (if exited st then []
      else [Console Log ''Disconnecting...''] @
           (if wsOpen st then [Send (SignalMessage ''exit'' (clientId st) (roomId st) (PExit (userName st)))] else []) @
           (if pc st = None then [] else [Platform PcClose]) @
           [Callback (OnStatusChange ''inactive''), Callback OnRemoteStreamStopped])"
  by (simp add: disconnect_def Let_def emit_fields sendMessage_fields sendMessage_effects wsOpen_def split: option.splits)

lemma disconnect_pc: "pc (disconnect st) = (if exited st then pc st else None)"
  by (simp add: disconnect_def Let_def emit_fields sendMessage_fields split: option.splits)

lemma connectSetup_effects:
  "wsOpen st \<Longrightarrow> connectSetup ls env st = Inr st' \<Longrightarrow>
     effects st' = effects st @ [Platform NewPeerConnection, Send (SignalMessage ''join'' (clientId st) (roomId st) (PJoin (userName st)))]"
  "connectSetup ls env st = Inl st' \<Longrightarrow>
     effects st' = effects st @ (if newPeerConnectionOk env then [Platform NewPeerConnection] else [])"
  by (auto simp: connectSetup_def Let_def emit_def sendMessage_def wsOpen_def updPc_def updWs_def addTransceiver_def
       split: if_splits list.splits option.splits)


lemma connectSetup_Inr:
  assumes "connectSetup ls env st = Inr st'" "ws st = Some w"
  shows "pc st' \<noteq> None \<and> exited st' = exited st \<and>
         ws st' = Some (w\<lparr>onmessage := HandleWsMessage\<rparr>) \<and>
         newPeerConnectionOk env \<and> videoTracks ls \<noteq> [] \<and> audioTracks ls \<noteq> []"
  using assms
  by (auto simp: connectSetup_def Let_def emit_def sendMessage_def wsOpen_def updPc_def updWs_def
        addTransceiver_def split: if_splits list.splits option.splits)

lemma connectSetup_succeeds:
  assumes "newPeerConnectionOk env" "videoTracks ls \<noteq> []" "audioTracks ls \<noteq> []"
  shows "\<exists>st'. connectSetup ls env st = Inr st'"
  using assms
  by (auto simp: connectSetup_def Let_def split: list.splits)

lemma connect_open_effects:
  assumes "wsOpen st"
  shows "Callback (OnError ''Signaling server not connected'') \<notin> set (effectsSince st (connect ls env st)) \<and>
         Platform NewWebSocket \<notin> set (effectsSince st (connect ls env st)) \<and>
         Platform WsClose \<notin> set (effectsSince st (connect ls env st))"
proof (cases "connectSetup ls env (st\<lparr>exited := False\<rparr>)")
  case (Inl st')
  have "wsOpen (st\<lparr>exited := False\<rparr>)" using assms by (simp add: wsOpen_def)
  from connectSetup_effects(2)[OF Inl] show ?thesis
    using assms Inl
    by (simp add: connect_def effectsSince_def disconnect_effects emit_fields)
next
  case (Inr st')
  have "wsOpen (st\<lparr>exited := False\<rparr>)" using assms by (simp add: wsOpen_def)
  from connectSetup_effects(1)[OF this Inr] show ?thesis
    using assms Inr
    by (simp add: connect_def effectsSince_def)
qed


subsection \<open>Allocation of transceivers and the remote offer\<close>

lemma updPc_fields:
  "ws (updPc f st) = ws st" "roomId (updPc f st) = roomId st"
  "clientId (updPc f st) = clientId st" "userName (updPc f st) = userName st"
  "screenShareVideoTransceiver (updPc f st) = screenShareVideoTransceiver st"
  "screenShareAudioTransceiver (updPc f st) = screenShareAudioTransceiver st"
  "exited (updPc f st) = exited st" "pendingStreams (updPc f st) = pendingStreams st"
  "pendingScreenShareIds (updPc f st) = pendingScreenShareIds st"
  "store (updPc f st) = store st" "nextRef (updPc f st) = nextRef st"
  "effects (updPc f st) = effects st" "wsOpen (updPc f st) = wsOpen st"
  "pc (updPc f st) = map_option f (pc st)"
  by (simp_all add: updPc_def wsOpen_def)

lemma addTransceiver_fields:
  "ws (addTransceiver t st) = ws st" "roomId (addTransceiver t st) = roomId st"
  "clientId (addTransceiver t st) = clientId st" "userName (addTransceiver t st) = userName st"
  "screenShareVideoTransceiver (addTransceiver t st) = screenShareVideoTransceiver st"
  "screenShareAudioTransceiver (addTransceiver t st) = screenShareAudioTransceiver st"
  "exited (addTransceiver t st) = exited st" "pendingStreams (addTransceiver t st) = pendingStreams st"
  "pendingScreenShareIds (addTransceiver t st) = pendingScreenShareIds st"
  "effects (addTransceiver t st) = effects st" "wsOpen (addTransceiver t st) = wsOpen st"
  by (simp_all add: addTransceiver_def wsOpen_def split: option.splits)

lemma addTransceiver_pc:
  "pc st = Some p \<Longrightarrow>
     pc (addTransceiver t st) = Some (p\<lparr>pcTransceivers := pcTransceivers p @ [nextRef st]\<rparr>) \<and>
     nextRef (addTransceiver t st) = Suc (nextRef st) \<and>
     store (addTransceiver t st) = (store st)(nextRef st \<mapsto> t)"
  by (simp add: addTransceiver_def)

lemma addRecvTransceivers_fields:
  "ws (addRecvTransceivers k st) = ws st" "roomId (addRecvTransceivers k st) = roomId st"
  "clientId (addRecvTransceivers k st) = clientId st" "userName (addRecvTransceivers k st) = userName st"
  "screenShareVideoTransceiver (addRecvTransceivers k st) = screenShareVideoTransceiver st"
  "screenShareAudioTransceiver (addRecvTransceivers k st) = screenShareAudioTransceiver st"
  "exited (addRecvTransceivers k st) = exited st" "pendingStreams (addRecvTransceivers k st) = pendingStreams st"
  "pendingScreenShareIds (addRecvTransceivers k st) = pendingScreenShareIds st"
  "effects (addRecvTransceivers k st) = effects st" "wsOpen (addRecvTransceivers k st) = wsOpen st"
  by (induction k arbitrary: st; simp add: addTransceiver_fields)+

lemma addRecvTransceivers_pc:
  "pc st = Some p \<Longrightarrow>
     pc (addRecvTransceivers k st)
       = Some (p\<lparr>pcTransceivers := pcTransceivers p @ [nextRef st ..< nextRef st + k]\<rparr>) \<and>
     nextRef (addRecvTransceivers k st) = nextRef st + k \<and>
     store (addRecvTransceivers k st)
       = (\<lambda>r. if nextRef st \<le> r \<and> r < nextRef st + k
               then Some \<lparr>trDirection = Recvonly, senderTrack = None\<rparr> else store st r)"
proof (induction k arbitrary: st p)
  case 0
  then show ?case by (auto simp: fun_eq_iff)
next
  case (Suc k)
  let ?t = "\<lparr>trDirection = Recvonly, senderTrack = None\<rparr>"
  from addTransceiver_pc[OF Suc.prems, of ?t]
  have a: "pc (addTransceiver ?t st) = Some (p\<lparr>pcTransceivers := pcTransceivers p @ [nextRef st]\<rparr>)"
    and n: "nextRef (addTransceiver ?t st) = Suc (nextRef st)"
    and s: "store (addTransceiver ?t st) = (store st)(nextRef st \<mapsto> ?t)"
    by simp_all
  have "[nextRef st ..< nextRef st + Suc k] = nextRef st # [Suc (nextRef st) ..< Suc (nextRef st) + k]"
    by (simp add: upt_conv_Cons)
  with Suc.IH[OF a] n s show ?case
    by (auto simp: fun_eq_iff)
qed


lemma storeScreenShareTransceivers_fields:
  "ws (storeScreenShareTransceivers st) = ws st" "pc (storeScreenShareTransceivers st) = pc st"
  "roomId (storeScreenShareTransceivers st) = roomId st"
  "clientId (storeScreenShareTransceivers st) = clientId st"
  "userName (storeScreenShareTransceivers st) = userName st"
  "exited (storeScreenShareTransceivers st) = exited st"
  "pendingStreams (storeScreenShareTransceivers st) = pendingStreams st"
  "pendingScreenShareIds (storeScreenShareTransceivers st) = pendingScreenShareIds st"
  "nextRef (storeScreenShareTransceivers st) = nextRef st"
  "wsOpen (storeScreenShareTransceivers st) = wsOpen st"
  by (simp_all add: storeScreenShareTransceivers_def Let_def emit_fields wsOpen_def split: option.splits)

lemma storeScreenShareTransceivers_enough:
  assumes "pc st = Some p" "length (pcTransceivers p) \<ge> 4"
  shows "screenShareVideoTransceiver (storeScreenShareTransceivers st) = Some (pcTransceivers p ! 2)"
    "screenShareAudioTransceiver (storeScreenShareTransceivers st) = Some (pcTransceivers p ! 3)"
    "store (storeScreenShareTransceivers st)
       = setDirection (pcTransceivers p ! 2) Sendonly
           (setDirection (pcTransceivers p ! 3) Sendonly (store st))"
    "effects (storeScreenShareTransceivers st) = effects st"
  using assms by (simp_all add: storeScreenShareTransceivers_def Let_def)

lemma storeScreenShareTransceivers_few:
  assumes "pc st = Some p" "length (pcTransceivers p) < 4"
  shows "screenShareVideoTransceiver (storeScreenShareTransceivers st) = screenShareVideoTransceiver st"
    "screenShareAudioTransceiver (storeScreenShareTransceivers st) = screenShareAudioTransceiver st"
    "store (storeScreenShareTransceivers st) = store st"
    "effects (storeScreenShareTransceivers st) = effects st @
       [Console Warn (''Expected at least 4 transceivers, found '' @ digit (length (pcTransceivers p))
          @ '', no screen share transceivers stored'')]"
  using assms by (simp_all add: storeScreenShareTransceivers_def Let_def emit_fields)

lemma applyRemoteOffer_fields:
  "ws (applyRemoteOffer offer k st) = ws st"
  "roomId (applyRemoteOffer offer k st) = roomId st"
  "clientId (applyRemoteOffer offer k st) = clientId st"
  "userName (applyRemoteOffer offer k st) = userName st"
  "exited (applyRemoteOffer offer k st) = exited st"
  "pendingStreams (applyRemoteOffer offer k st) = pendingStreams st"
  "pendingScreenShareIds (applyRemoteOffer offer k st) = pendingScreenShareIds st"
  "wsOpen (applyRemoteOffer offer k st) = wsOpen st"
  by (simp_all add: applyRemoteOffer_def storeScreenShareTransceivers_fields addRecvTransceivers_fields
        updPc_fields)

lemma applyRemoteOffer_pc:
  assumes "pc st = Some p"
  shows "pc (applyRemoteOffer offer k st)
           = Some (p\<lparr>pcTransceivers := pcTransceivers p @ [nextRef st ..< nextRef st + k],
                     remoteDescription := Some (''offer'', offer)\<rparr>)"
    "nextRef (applyRemoteOffer offer k st) = nextRef st + k"
proof -
  let ?s = "updPc (remoteDescription_update (\<lambda>_. Some (''offer'', offer))) st"
  have "pc ?s = Some (p\<lparr>remoteDescription := Some (''offer'', offer)\<rparr>)"
    using assms by (simp add: updPc_fields)
  from addRecvTransceivers_pc[OF this, of k]
  show "pc (applyRemoteOffer offer k st)
           = Some (p\<lparr>pcTransceivers := pcTransceivers p @ [nextRef st ..< nextRef st + k],
                     remoteDescription := Some (''offer'', offer)\<rparr>)"
    "nextRef (applyRemoteOffer offer k st) = nextRef st + k"
    by (simp_all add: applyRemoteOffer_def storeScreenShareTransceivers_fields updPc_fields)
qed

lemma handleWsMessage_offer:
  "pc st \<noteq> None \<Longrightarrow>
   handleWsMessage (Parsed (InOffer offer)) env st =
     ((case handleOffer offer env (emit (Console Log ''msg (call active): '') st) of
         Inr st' \<Rightarrow> st'
       | Inl st' \<Rightarrow> emit (Console Error ''Error in WS message handler: '') st'), Returned)"
  by (auto simp: handleWsMessage_def split: sum.splits)


lemma applyRemoteOffer_effects:
  assumes "pc st = Some p"
  shows "effects (applyRemoteOffer offer k st) = effects st @
           (if length (pcTransceivers p) + k \<ge> 4 then []
            else [Console Warn (''Expected at least 4 transceivers, found ''
                    @ digit (length (pcTransceivers p) + k)
                    @ '', no screen share transceivers stored'')])"
proof -
  let ?s = "addRecvTransceivers k (updPc (remoteDescription_update (\<lambda>_. Some (''offer'', offer))) st)"
  have "pc (updPc (remoteDescription_update (\<lambda>_. Some (''offer'', offer))) st)
          = Some (p\<lparr>remoteDescription := Some (''offer'', offer)\<rparr>)"
    using assms by (simp add: updPc_fields)
  from addRecvTransceivers_pc[OF this, of k]
  have pcs: "pc ?s = Some (p\<lparr>pcTransceivers := pcTransceivers p @ [nextRef st ..< nextRef st + k],
                              remoteDescription := Some (''offer'', offer)\<rparr>)"
    by (simp add: updPc_fields)
  have e: "effects ?s = effects st"
    by (simp add: addRecvTransceivers_fields updPc_fields)
  show ?thesis
  proof (cases "length (pcTransceivers p) + k \<ge> 4")
    case True
    with storeScreenShareTransceivers_enough(4)[OF pcs] e show ?thesis
      by (simp add: applyRemoteOffer_def)
  next
    case False
    with storeScreenShareTransceivers_few(4)[OF pcs] e show ?thesis
      by (simp add: applyRemoteOffer_def)
  qed
qed

lemma handleWsMessage_stop:
  "pc st \<noteq> None \<Longrightarrow>
   handleWsMessage (Parsed (InPeerScreenShareStop x)) env st =
     (handlePeerScreenShareStop x (emit (Console Log ''msg (call active): '') st), Returned)"
  by (auto simp: handleWsMessage_def)


subsection \<open>The stored screen share transceiver\<close>

lemma video_connectSetup:
  "connectSetup ls env st = Inl st' \<or> connectSetup ls env st = Inr st' \<Longrightarrow> screenShareVideoTransceiver st' = screenShareVideoTransceiver st"
  by (auto simp: connectSetup_def Let_def emit_fields sendMessage_fields updPc_fields
        addTransceiver_fields updWs_def split: if_splits list.splits)

lemma video_connect: "screenShareVideoTransceiver (connect ls env st) = screenShareVideoTransceiver st"
  using video_connectSetup[of ls env "st\<lparr>exited := False\<rparr>"]
  by (auto simp: connect_def emit_fields disconnect_fields split: sum.splits)

lemma video_cleanup: "screenShareVideoTransceiver (cleanup st) = screenShareVideoTransceiver st"
  by (simp add: cleanup_def Let_def emit_fields disconnect_fields split: option.splits)

lemma video_startScreenShare: "screenShareVideoTransceiver (fst (startScreenShare s env st)) = screenShareVideoTransceiver st"
  by (simp add: startScreenShare_def Let_def emit_fields sendMessage_fields split: option.splits list.splits)

lemma video_handleTrack: "screenShareVideoTransceiver (handleTrack V streams st) = screenShareVideoTransceiver st"
  by (simp add: handleTrack_def Let_def emit_fields sendMessage_fields split: option.splits list.splits)

lemma video_handleConnectionStateChange: "screenShareVideoTransceiver (handleConnectionStateChange st) = screenShareVideoTransceiver st"
  by (simp add: handleConnectionStateChange_def Let_def emit_fields disconnect_fields
        split: option.splits connectionState.splits)

lemma video_handleNegotiationNeeded: "screenShareVideoTransceiver (handleNegotiationNeeded env st) = screenShareVideoTransceiver st"
  by (simp add: handleNegotiationNeeded_def emit_fields sendMessage_fields updPc_fields split: option.splits)

lemma video_dispatch:
  assumes "\<forall>offer. m \<noteq> InOffer offer" "dispatch m env st = Inl st' \<or> dispatch m env st = Inr st'"
  shows "screenShareVideoTransceiver st' = screenShareVideoTransceiver st"
  using assms
  by (cases m)
     (auto simp: handleAnswer_def handlePeerScreenShare_def handlePeerScreenShareStop_def
        emit_fields updPc_fields split: option.splits if_splits)

lemma video_handleWsMessage:
  assumes "\<forall>offer. d \<noteq> Parsed (InOffer offer)"
  shows "screenShareVideoTransceiver (fst (handleWsMessage d env st)) = screenShareVideoTransceiver st"
proof (cases d)
  case Unparseable
  then show ?thesis by (simp add: handleWsMessage_def split: option.splits)
next
  case (Parsed m)
  with assms have no: "\<forall>offer. m \<noteq> InOffer offer" by simp
  let ?st0 = "emit (Console Log ''msg (call active): '') st"
  show ?thesis
  proof (cases "dispatch m env ?st0")
    case (Inl st')
    with video_dispatch[OF no, of env ?st0 st'] Parsed show ?thesis
      by (simp add: handleWsMessage_def emit_fields split: option.splits)
  next
    case (Inr st')
    with video_dispatch[OF no, of env ?st0 st'] Parsed show ?thesis
      by (simp add: handleWsMessage_def emit_fields split: option.splits)
  qed
qed

lemma video_step:
  assumes "\<not> isOfferEvent e"
  shows "screenShareVideoTransceiver (step V e st) = screenShareVideoTransceiver st"
proof (cases e)
  case (WsMessage d env)
  with assms have "\<forall>offer. d \<noteq> Parsed (InOffer offer)"
    by (auto simp: isOfferEvent_def)
  then have "screenShareVideoTransceiver (fst (handleWsMessage d env st)) = screenShareVideoTransceiver st"
    by (rule video_handleWsMessage)
  with WsMessage show ?thesis
    by (cases "ws st"; cases "onmessage (the (ws st))") (simp_all add: wsMessageEvent_def emit_fields)
qed (simp_all add: initSignalingConnection_def emit_fields video_connect video_startScreenShare
       stopScreenShare_def sendMessage_fields disconnect_fields video_cleanup updWs_def updPc_fields
       handleIceCandidate_def video_handleTrack video_handleConnectionStateChange
       video_handleNegotiationNeeded Let_def split: option.splits)

lemma video_run:
  "\<forall>e \<in> set es. \<not> isOfferEvent e \<Longrightarrow> screenShareVideoTransceiver (run V es st) = screenShareVideoTransceiver st"
  by (induction es arbitrary: st) (simp_all add: video_step)

lemma handleOffer_keeps:
  assumes "setRemoteDescriptionNew env = Some k"
    "handleOffer offer env st = Inl st' \<or> handleOffer offer env st = Inr st'"
  shows "store st' = store (applyRemoteOffer offer k st)"
    "screenShareVideoTransceiver st' = screenShareVideoTransceiver (applyRemoteOffer offer k st)"
    "screenShareAudioTransceiver st' = screenShareAudioTransceiver (applyRemoteOffer offer k st)"
    "map_option pcTransceivers (pc st') = map_option pcTransceivers (pc (applyRemoteOffer offer k st))"
    "nextRef st' = nextRef (applyRemoteOffer offer k st)"
  using assms
  by (auto simp: handleOffer_def Let_def emit_fields updPc_fields sendMessage_fields option.map_comp comp_def
        split: option.splits if_splits)

lemma handleWsMessage_offer_keeps:
  fixes offer :: sdp and env :: platform and st :: manager
  assumes "pc st \<noteq> None" "setRemoteDescriptionNew env = Some k"
  defines "st0 \<equiv> emit (Console Log ''msg (call active): '') st"
  defines "st' \<equiv> fst (handleWsMessage (Parsed (InOffer offer)) env st)"
  shows "store st' = store (applyRemoteOffer offer k st0)"
    "screenShareVideoTransceiver st' = screenShareVideoTransceiver (applyRemoteOffer offer k st0)"
    "screenShareAudioTransceiver st' = screenShareAudioTransceiver (applyRemoteOffer offer k st0)"
    "map_option pcTransceivers (pc st') = map_option pcTransceivers (pc (applyRemoteOffer offer k st0))"
    "nextRef st' = nextRef (applyRemoteOffer offer k st0)"
proof -
  obtain st1 where r: "handleOffer offer env st0 = Inl st1 \<or> handleOffer offer env st0 = Inr st1"
    by (cases "handleOffer offer env st0") auto
  have eq: "st' = st1 \<or> st' = emit (Console Error ''Error in WS message handler: '') st1"
    using r assms(1) unfolding st'_def st0_def by (auto simp: handleWsMessage_offer)
  note k = handleOffer_keeps[OF assms(2) r]
  show "store st' = store (applyRemoteOffer offer k st0)" using eq k(1) by (auto simp: emit_fields)
  show "screenShareVideoTransceiver st' = screenShareVideoTransceiver (applyRemoteOffer offer k st0)"
    using eq k(2) by (auto simp: emit_fields)
  show "screenShareAudioTransceiver st' = screenShareAudioTransceiver (applyRemoteOffer offer k st0)"
    using eq k(3) by (auto simp: emit_fields)
  show "map_option pcTransceivers (pc st') = map_option pcTransceivers (pc (applyRemoteOffer offer k st0))"
    using eq k(4) by (auto simp: emit_fields)
  show "nextRef st' = nextRef (applyRemoteOffer offer k st0)" using eq k(5) by (auto simp: emit_fields)
qed

lemma applyRemoteOffer_store:
  fixes st :: manager and k :: nat and offer :: sdp
  assumes "pc st = Some p"
  defines "ts \<equiv> pcTransceivers p @ [nextRef st ..< nextRef st + k]"
  defines "fresh \<equiv> (\<lambda>r. if nextRef st \<le> r \<and> r < nextRef st + k
                         then Some \<lparr>trDirection = Recvonly, senderTrack = None\<rparr> else store st r)"
  shows "length ts \<ge> 4 \<Longrightarrow>
           store (applyRemoteOffer offer k st) = setDirection (ts ! 2) Sendonly (setDirection (ts ! 3) Sendonly fresh) \<and>
           screenShareVideoTransceiver (applyRemoteOffer offer k st) = Some (ts ! 2) \<and>
           screenShareAudioTransceiver (applyRemoteOffer offer k st) = Some (ts ! 3)"
    "length ts < 4 \<Longrightarrow>
           store (applyRemoteOffer offer k st) = fresh \<and>
           screenShareVideoTransceiver (applyRemoteOffer offer k st) = screenShareVideoTransceiver st \<and>
           screenShareAudioTransceiver (applyRemoteOffer offer k st) = screenShareAudioTransceiver st"
proof -
  let ?s = "addRecvTransceivers k (updPc (remoteDescription_update (\<lambda>_. Some (''offer'', offer))) st)"
  have "pc (updPc (remoteDescription_update (\<lambda>_. Some (''offer'', offer))) st)
          = Some (p\<lparr>remoteDescription := Some (''offer'', offer)\<rparr>)"
    using assms by (simp add: updPc_fields)
  from addRecvTransceivers_pc[OF this, of k]
  have pcs: "pc ?s = Some (p\<lparr>pcTransceivers := ts, remoteDescription := Some (''offer'', offer)\<rparr>)"
    and sto: "store ?s = fresh"
    by (simp_all add: updPc_fields ts_def fresh_def cong: if_cong)
  have v: "screenShareVideoTransceiver ?s = screenShareVideoTransceiver st"
    "screenShareAudioTransceiver ?s = screenShareAudioTransceiver st"
    by (simp_all add: addRecvTransceivers_fields updPc_fields)
  show "length ts \<ge> 4 \<Longrightarrow>
           store (applyRemoteOffer offer k st) = setDirection (ts ! 2) Sendonly (setDirection (ts ! 3) Sendonly fresh) \<and>
           screenShareVideoTransceiver (applyRemoteOffer offer k st) = Some (ts ! 2) \<and>
           screenShareAudioTransceiver (applyRemoteOffer offer k st) = Some (ts ! 3)"
    using storeScreenShareTransceivers_enough[OF pcs] sto by (simp add: applyRemoteOffer_def)
  show "length ts < 4 \<Longrightarrow>
           store (applyRemoteOffer offer k st) = fresh \<and>
           screenShareVideoTransceiver (applyRemoteOffer offer k st) = screenShareVideoTransceiver st \<and>
           screenShareAudioTransceiver (applyRemoteOffer offer k st) = screenShareAudioTransceiver st"
    using storeScreenShareTransceivers_few[OF pcs] sto v by (simp add: applyRemoteOffer_def)
qed

lemma wellFormed_refs:
  fixes st :: manager and k :: nat
  assumes "wellFormed st" "pc st = Some p"
  defines "ts \<equiv> pcTransceivers p @ [nextRef st ..< nextRef st + k]"
  defines "fresh \<equiv> (\<lambda>r. if nextRef st \<le> r \<and> r < nextRef st + k
                         then Some \<lparr>trDirection = Recvonly, senderTrack = None\<rparr> else store st r)"
  shows "distinct ts" "\<forall>r \<in> set ts. fresh r \<noteq> None"
proof -
  from assms(1,2) have d: "distinct (pcTransceivers p)" and sub: "set (pcTransceivers p) \<subseteq> {..<nextRef st}"
    and dm: "dom (store st) = {..<nextRef st}"
    by (simp_all add: wellFormed_def)
  from d sub show "distinct ts" by (auto simp: ts_def)
  show "\<forall>r \<in> set ts. fresh r \<noteq> None"
  proof
    fix r assume "r \<in> set ts"
    then consider "r \<in> set (pcTransceivers p)" | "nextRef st \<le> r \<and> r < nextRef st + k"
      by (auto simp: ts_def)
    then show "fresh r \<noteq> None"
    proof cases
      case 1
      with sub dm have "r \<in> dom (store st)" by auto
      then show ?thesis by (auto simp: fresh_def)
    next
      case 2
      then show ?thesis by (simp add: fresh_def)
    qed
  qed
qed

lemma setDirection_lookup:
  "setDirection r d h r' =
     (if r' = r then map_option (trDirection_update (\<lambda>_. d)) (h r) else h r')"
  by (simp add: setDirection_def split: option.splits)

lemma setSenderTrack_lookup:
  "setSenderTrack r t h r' =
     (if r' = r then map_option (senderTrack_update (\<lambda>_. Some t)) (h r) else h r')"
  by (simp add: setSenderTrack_def split: option.splits)

lemma startScreenShare_replaces:
  assumes "screenShareVideoTransceiver st = Some r" "videoTracks stream = v # vs" "replaceTrackOk env"
  shows "snd (startScreenShare stream env st) = Returned"
    "store (fst (startScreenShare stream env st)) = setSenderTrack r v (store st)"
  using assms
  by (simp_all add: startScreenShare_def Let_def emit_fields sendMessage_fields)

lemma startScreenShare_unavailable:
  assumes "screenShareVideoTransceiver st = None"
  shows "startScreenShare stream env st
           = (emit (Console Error ''No screen share video transceiver available'') st, Returned)"
  using assms by (simp add: startScreenShare_def)


subsection \<open>The sample states, evaluated\<close>

lemmas eval_defs =
  emit_def wsOpen_def sendMessage_def updPc_def updWs_def addTransceiver_def
  storeScreenShareTransceivers_def applyRemoteOffer_def handleOffer_def handleWsMessage_def
  setDirection_def setSenderTrack_def digit_def Let_def

lemma sampleSmallOffer_eq:
  "sampleSmallOffer =
     sampleConnected
       \<lparr> pc := Some \<lparr> onicecandidate = True, onconnectionstatechange = True, ontrack = True,
                       onnegotiationneeded = True, pcConnectionState = New, pcTransceivers = [0, 1],
                       remoteDescription = Some (''offer'', ''offer-1''),
                       localDescription = Some (''answer'', ''answer-sdp'') \<rparr>,
         effects := effects sampleConnected @
           [Console Log ''msg (call active): '',
            Console Warn ''Expected at least 4 transceivers, found 2, no screen share transceivers stored'',
            Send (SignalMessage ''answer'' ''client-1'' ''room-1''
                    (PDescription (Some (''answer'', ''answer-sdp'')))),
            Platform SetOnNegotiationNeeded] \<rparr>"
  by (simp add: sampleSmallOffer_def sampleConnected_eq sampleBarePlatform_def samplePlatform_def
        eval_defs)

lemma sampleLargeOffer_fields:
  "screenShareVideoTransceiver sampleLargeOffer = Some 2"
  "screenShareAudioTransceiver sampleLargeOffer = Some 3"
  "ws sampleLargeOffer = Some \<lparr>readyState = OPEN, onmessage = HandleWsMessage\<rparr>"
  "clientId sampleLargeOffer = ''client-1''" "roomId sampleLargeOffer = ''room-1''"
  by (simp_all add: sampleLargeOffer_def sampleSmallOffer_eq sampleConnected_eq samplePlatform_def
        eval_defs numeral_2_eq_2 numeral_3_eq_3)

lemma sampleLargeOffer_more:
  "nextRef sampleLargeOffer = 4" "\<not> exited sampleLargeOffer" "userName sampleLargeOffer = ''alice''"
  by (simp_all add: sampleLargeOffer_def sampleSmallOffer_eq sampleConnected_eq samplePlatform_def
        eval_defs numeral_2_eq_2 numeral_3_eq_3)

lemma sampleRejoined_fields:
  "map_option pcTransceivers (pc sampleRejoined) = Some [4, 5]"
  "screenShareVideoTransceiver sampleRejoined = Some 2"
  "ws sampleRejoined = Some \<lparr>readyState = OPEN, onmessage = HandleWsMessage\<rparr>"
  "clientId sampleRejoined = ''client-1''" "roomId sampleRejoined = ''room-1''"
  by (simp_all add: sampleRejoined_def sampleLargeOffer_fields sampleLargeOffer_more
        sampleBarePlatform_def samplePlatform_def sampleCamera_def
        connect_def connectSetup_def freshPeerConnection_def installConnectHandlers_def
        disconnect_fields disconnect_ws disconnect_pc
        eval_defs)

subsection \<open>Well-formedness of the transceiver store is invariant\<close>

lemma wellFormed_shape: "shapeOf st' = shapeOf st \<Longrightarrow> wellFormed st' = wellFormed st"
  by (cases "pc st"; cases "pc st'") (auto simp: shapeOf_def wellFormed_def)

lemma wellFormed_closed:
  "wellFormed st \<Longrightarrow> dom (store st') = dom (store st) \<Longrightarrow> nextRef st' = nextRef st \<Longrightarrow>
   pc st' = None \<Longrightarrow> wellFormed st'"
  by (simp add: wellFormed_def)

lemma shapeOf_emit: "shapeOf (emit e st) = shapeOf st"
  by (simp add: shapeOf_def emit_fields)

lemma shapeOf_sendMessage: "shapeOf (sendMessage t p st) = shapeOf st"
  by (simp add: shapeOf_def sendMessage_fields)

lemma shapeOf_updWs: "shapeOf (updWs f st) = shapeOf st"
  by (simp add: shapeOf_def updWs_def)

lemma shapeOf_updPc:
  "(\<And>p. pcTransceivers (f p) = pcTransceivers p) \<Longrightarrow> shapeOf (updPc f st) = shapeOf st"
  by (simp add: shapeOf_def updPc_fields option.map_comp comp_def)

lemma wellFormed_emit: "wellFormed (emit e st) = wellFormed st"
  by (rule wellFormed_shape) (rule shapeOf_emit)

lemma wellFormed_sendMessage: "wellFormed (sendMessage t p st) = wellFormed st"
  by (rule wellFormed_shape) (rule shapeOf_sendMessage)

lemma wellFormed_updWs: "wellFormed (updWs f st) = wellFormed st"
  by (rule wellFormed_shape) (rule shapeOf_updWs)

lemma wellFormed_updPc:
  "(\<And>p. pcTransceivers (f p) = pcTransceivers p) \<Longrightarrow> wellFormed (updPc f st) = wellFormed st"
  by (rule wellFormed_shape) (rule shapeOf_updPc)

lemma wellFormed_disconnect: "wellFormed st \<Longrightarrow> wellFormed (disconnect st)"
  by (cases "pc st"; cases "exited st")
     (simp_all add: wellFormed_def disconnect_fields disconnect_pc)

lemma wellFormed_addTransceiver: "wellFormed st \<Longrightarrow> wellFormed (addTransceiver t st)"
  by (cases "pc st") (auto simp: wellFormed_def addTransceiver_def lessThan_Suc)

lemma wellFormed_addRecvTransceivers: "wellFormed st \<Longrightarrow> wellFormed (addRecvTransceivers k st)"
  by (induction k arbitrary: st) (simp_all add: wellFormed_addTransceiver)

lemma dom_setDirection: "dom (setDirection r d h) = dom h"
  by (auto simp: setDirection_def split: option.splits)

lemma dom_setSenderTrack: "dom (setSenderTrack r t h) = dom h"
  by (auto simp: setSenderTrack_def split: option.splits)

lemma shapeOf_storeScreenShareTransceivers: "shapeOf (storeScreenShareTransceivers st) = shapeOf st"
  by (simp add: storeScreenShareTransceivers_def Let_def shapeOf_emit split: option.splits)
     (simp add: shapeOf_def dom_setDirection)

lemma wellFormed_applyRemoteOffer: "wellFormed st \<Longrightarrow> wellFormed (applyRemoteOffer offer k st)"
proof -
  assume wf: "wellFormed st"
  from wf have "wellFormed (updPc (remoteDescription_update (\<lambda>_. Some (''offer'', offer))) st)"
    by (simp add: wellFormed_updPc)
  then have "wellFormed (addRecvTransceivers k
               (updPc (remoteDescription_update (\<lambda>_. Some (''offer'', offer))) st))"
    by (rule wellFormed_addRecvTransceivers)
  then show ?thesis
    by (simp add: applyRemoteOffer_def wellFormed_shape[OF shapeOf_storeScreenShareTransceivers])
qed

lemma wellFormed_handleOffer:
  assumes "wellFormed st" "handleOffer offer env st = Inl st' \<or> handleOffer offer env st = Inr st'"
  shows "wellFormed st'"
proof (cases "setRemoteDescriptionNew env")
  case None
  with assms show ?thesis by (simp add: handleOffer_def)
next
  case (Some k)
  let ?a = "applyRemoteOffer offer k st"
  have wa: "wellFormed ?a" using assms(1) by (rule wellFormed_applyRemoteOffer)
  have "shapeOf st' = shapeOf ?a"
    using assms(2) Some
    by (auto simp: handleOffer_def Let_def shapeOf_emit shapeOf_sendMessage shapeOf_updPc
          split: option.splits if_splits)
  from wellFormed_shape[OF this] wa show ?thesis by simp
qed

lemma wellFormed_dispatch:
  assumes "wellFormed st" "dispatch m env st = Inl st' \<or> dispatch m env st = Inr st'"
  shows "wellFormed st'"
proof (cases m)
  case (InOffer offer)
  with assms wellFormed_handleOffer[of st offer env st'] show ?thesis by simp
next
  case (InAnswer answer)
  have "wellFormed (updPc (remoteDescription_update (\<lambda>_. Some (''answer'', answer))) st)"
    using assms(1) by (simp add: wellFormed_updPc)
  with assms InAnswer show ?thesis
    by (auto simp: handleAnswer_def split: option.splits)
next
  case (InCandidate c)
  with assms show ?thesis by (auto split: if_splits)
next
  case (InPeerExit a b)
  with assms show ?thesis by (auto simp: wellFormed_emit)
next
  case (InPeerScreenShare s q)
  have "shapeOf (handlePeerScreenShare s q st) = shapeOf st"
    by (simp add: handlePeerScreenShare_def shapeOf_def emit_fields split: option.splits)
  from wellFormed_shape[OF this] assms InPeerScreenShare show ?thesis by auto
next
  case (InPeerScreenShareStop x)
  have "shapeOf (handlePeerScreenShareStop x st) = shapeOf st"
    by (simp add: handlePeerScreenShareStop_def shapeOf_def emit_fields)
  from wellFormed_shape[OF this] assms InPeerScreenShareStop show ?thesis by auto
next
  case (InOther ty)
  with assms show ?thesis by (auto simp: wellFormed_emit)
qed

lemma wellFormed_handleWsMessage:
  assumes "wellFormed st"
  shows "wellFormed (fst (handleWsMessage d env st))"
proof (cases "pc st")
  case None
  then show ?thesis using assms by (simp add: handleWsMessage_def)
next
  case (Some p)
  show ?thesis
  proof (cases d)
    case Unparseable
    then show ?thesis using assms Some by (simp add: handleWsMessage_def)
  next
    case (Parsed m)
    let ?st0 = "emit (Console Log ''msg (call active): '') st"
    have w0: "wellFormed ?st0" using assms by (simp add: wellFormed_emit)
    show ?thesis
    proof (cases "dispatch m env ?st0")
      case (Inl st')
      with wellFormed_dispatch[OF w0, of m env st'] have "wellFormed st'" by simp
      then show ?thesis using Some Parsed Inl
        by (simp add: handleWsMessage_def wellFormed_emit)
    next
      case (Inr st')
      with wellFormed_dispatch[OF w0, of m env st'] have "wellFormed st'" by simp
      then show ?thesis using Some Parsed Inr by (simp add: handleWsMessage_def)
    qed
  qed
qed

lemma wellFormed_connectSetup:
  assumes "wellFormed st" "connectSetup ls env st = Inl st' \<or> connectSetup ls env st = Inr st'"
  shows "wellFormed st'"
proof (cases "newPeerConnectionOk env")
  case False
  with assms show ?thesis by (simp add: connectSetup_def)
next
  case True
  let ?st1 = "(emit (Platform NewPeerConnection) st)\<lparr>pc := Some freshPeerConnection\<rparr>"
  have w1: "wellFormed ?st1"
    using assms(1) by (simp add: wellFormed_def emit_fields freshPeerConnection_def)
  show ?thesis
  proof (cases "videoTracks ls")
    case Nil
    with assms(2) True w1 show ?thesis by (simp add: connectSetup_def Let_def)
  next
    case (Cons v vs)
    let ?st2 = "addTransceiver \<lparr>trDirection = Sendrecv, senderTrack = Some v\<rparr> ?st1"
    have w2: "wellFormed ?st2" using w1 by (rule wellFormed_addTransceiver)
    show ?thesis
    proof (cases "audioTracks ls")
      case Nil
      with assms(2) True Cons w2 show ?thesis by (simp add: connectSetup_def Let_def)
    next
      case (Cons a as)
      let ?st3 = "addTransceiver \<lparr>trDirection = Sendrecv, senderTrack = Some a\<rparr> ?st2"
      have w3: "wellFormed ?st3" using w2 by (rule wellFormed_addTransceiver)
      have "wellFormed (updPc installConnectHandlers ?st3)"
        using w3 by (simp add: wellFormed_updPc installConnectHandlers_def)
      moreover have "st' = sendMessage ''join''
           (PJoin (userName (updWs (onmessage_update (\<lambda>_. HandleWsMessage))
                               (updPc installConnectHandlers ?st3))))
           (updWs (onmessage_update (\<lambda>_. HandleWsMessage)) (updPc installConnectHandlers ?st3))"
        using assms(2) True \<open>videoTracks ls = v # vs\<close> Cons
        by (auto simp: connectSetup_def Let_def)
      ultimately show ?thesis by (simp add: wellFormed_sendMessage wellFormed_updWs)
    qed
  qed
qed

lemma wellFormed_connect: "wellFormed st \<Longrightarrow> wellFormed (connect ls env st)"
proof -
  assume wf: "wellFormed st"
  have "shapeOf (st\<lparr>exited := False\<rparr>) = shapeOf st" by (simp add: shapeOf_def)
  from wellFormed_shape[OF this] wf have w0: "wellFormed (st\<lparr>exited := False\<rparr>)" by simp
  show ?thesis
  proof (cases "connectSetup ls env (st\<lparr>exited := False\<rparr>)")
    case (Inl st')
    with wellFormed_connectSetup[OF w0, of ls env st'] have "wellFormed st'" by simp
    then have "wellFormed (emit (Callback (OnError ''Failed to start call''))
                 (emit (Console Error ''Error during connection setup:'') st'))"
      by (simp add: wellFormed_emit)
    then show ?thesis using wf Inl
      by (simp add: connect_def wellFormed_disconnect wellFormed_emit)
  next
    case (Inr st')
    with wellFormed_connectSetup[OF w0, of ls env st'] have "wellFormed st'" by simp
    then show ?thesis using wf Inr
      by (simp add: connect_def wellFormed_emit)
  qed
qed

lemma wellFormed_startScreenShare: "wellFormed st \<Longrightarrow> wellFormed (fst (startScreenShare s env st))"
proof -
  assume wf: "wellFormed st"
  have "shapeOf (fst (startScreenShare s env st)) = shapeOf st"
    by (simp add: startScreenShare_def Let_def shapeOf_emit shapeOf_sendMessage
          split: option.splits list.splits)
       (simp add: shapeOf_def emit_fields dom_setSenderTrack)
  from wellFormed_shape[OF this] wf show ?thesis by simp
qed

lemma wellFormed_step: "wellFormed st \<Longrightarrow> wellFormed (step V e st)"
proof (cases e)
  case InitSignalingConnection
  assume wf: "wellFormed st"
  have "shapeOf (initSignalingConnection st) = shapeOf st"
    by (simp add: initSignalingConnection_def shapeOf_def emit_fields)
  from wellFormed_shape[OF this] wf show ?thesis using InitSignalingConnection by simp
next
  case (Connect ls env)
  assume "wellFormed st"
  then show ?thesis using Connect by (simp add: wellFormed_connect)
next
  case (StartScreenShare s env)
  assume "wellFormed st"
  then show ?thesis using StartScreenShare by (simp add: wellFormed_startScreenShare)
next
  case (StopScreenShare x)
  assume "wellFormed st"
  then show ?thesis using StopScreenShare
    by (simp add: stopScreenShare_def wellFormed_sendMessage)
next
  case Disconnect
  assume "wellFormed st"
  then show ?thesis using Disconnect by (simp add: wellFormed_disconnect)
next
  case Cleanup
  assume "wellFormed st"
  then have wd: "wellFormed (disconnect st)" by (rule wellFormed_disconnect)
  have "shapeOf (cleanup st) = shapeOf (disconnect st)"
    by (simp add: cleanup_def Let_def shapeOf_def emit_fields split: option.splits)
  from wellFormed_shape[OF this] wd show ?thesis using Cleanup by simp
next
  case WsOpened
  assume "wellFormed st"
  then show ?thesis using WsOpened
    by (simp add: wellFormed_emit wellFormed_updWs split: option.splits)
next
  case WsClosed
  assume "wellFormed st"
  then show ?thesis using WsClosed
    by (simp add: wellFormed_disconnect wellFormed_emit wellFormed_updWs split: option.splits)
next
  case WsErrored
  assume "wellFormed st"
  then show ?thesis using WsErrored
    by (simp add: wellFormed_emit split: option.splits)
next
  case (WsMessage d env)
  assume "wellFormed st"
  then show ?thesis using WsMessage
    by (cases "ws st"; cases "onmessage (the (ws st))")
       (simp_all add: wsMessageEvent_def wellFormed_handleWsMessage wellFormed_emit)
next
  case (IceCandidate c)
  assume "wellFormed st"
  then show ?thesis using IceCandidate
    by (simp add: handleIceCandidate_def wellFormed_emit wellFormed_sendMessage
          split: option.splits)
next
  case (ConnectionStateChange s)
  assume wf: "wellFormed st"
  have "shapeOf (updPc (pcConnectionState_update (\<lambda>_. s)) st) = shapeOf st"
    by (rule shapeOf_updPc) simp
  from wellFormed_shape[OF this] wf
  have w1: "wellFormed (updPc (pcConnectionState_update (\<lambda>_. s)) st)"
    by simp
  have "wellFormed (handleConnectionStateChange st1)" if "wellFormed st1" for st1
    using that
    by (simp add: handleConnectionStateChange_def Let_def wellFormed_disconnect
          wellFormed_emit split: option.splits connectionState.splits)
  with w1 wf show ?thesis using ConnectionStateChange
    by (simp add: Let_def split: option.splits)
next
  case (Track streams)
  assume wf: "wellFormed st"
  have "shapeOf (handleTrack V streams st) = shapeOf st"
    by (simp add: handleTrack_def Let_def shapeOf_def emit_fields sendMessage_fields
          split: list.splits option.splits)
  from wellFormed_shape[OF this] wf show ?thesis using Track by (simp split: option.splits)
next
  case (NegotiationNeeded env)
  assume wf: "wellFormed st"
  have "shapeOf (handleNegotiationNeeded env st) = shapeOf st"
    by (simp add: handleNegotiationNeeded_def shapeOf_def emit_fields sendMessage_fields updPc_fields
          option.map_comp comp_def split: option.splits)
  from wellFormed_shape[OF this] wf show ?thesis
    using NegotiationNeeded by (simp split: option.splits)
qed

lemma wellFormed_run: "wellFormed st \<Longrightarrow> wellFormed (run V es st)"
  by (induction es arbitrary: st) (simp_all add: wellFormed_step)

lemma wellFormed_reachable: "wellFormed (run V es (newManager room client name))"
  by (rule wellFormed_run) (simp add: wellFormed_def newManager_def)

subsection \<open>Events that are not about a stream id leave its correlation alone\<close>

lemma starts_emit:
  "startsFor s (emit e st) = startsFor s st @ (if isStartFor s e then callbacksOf [e] else [])"
  by (simp add: startsFor_def emit_fields callbacksOf_append)

lemma starts_emit_other [simp]:
  "startsFor s (emit (Console l m) st) = startsFor s st"
  "startsFor s (emit (Send msg) st) = startsFor s st"
  "startsFor s (emit (Platform po) st) = startsFor s st"
  "startsFor s (emit (Callback (OnStatusChange x)) st) = startsFor s st"
  "startsFor s (emit (Callback (OnRemoteStream strm)) st) = startsFor s st"
  "startsFor s (emit (Callback OnRemoteStreamStopped) st) = startsFor s st"
  "startsFor s (emit (Callback (OnPeerExit a b)) st) = startsFor s st"
  "startsFor s (emit (Callback (OnPeerScreenShareStopped x)) st) = startsFor s st"
  "startsFor s (emit (Callback (OnError x)) st) = startsFor s st"
  by (simp_all add: starts_emit isStartFor_def)

lemma starts_same: "effects st' = effects st \<Longrightarrow> startsFor s st' = startsFor s st"
  by (simp add: startsFor_def)

lemma starts_sendMessage [simp]: "startsFor s (sendMessage t p st) = startsFor s st"
  by (simp add: sendMessage_def)

lemma starts_updPc [simp]: "startsFor s (updPc f st) = startsFor s st"
  by (rule starts_same) (simp add: updPc_fields)

lemma starts_updWs [simp]: "startsFor s (updWs f st) = startsFor s st"
  by (rule starts_same) (simp add: updWs_def)

lemma starts_addTransceiver [simp]: "startsFor s (addTransceiver t st) = startsFor s st"
  by (rule starts_same) (simp add: addTransceiver_fields)

lemma starts_addRecvTransceivers [simp]: "startsFor s (addRecvTransceivers k st) = startsFor s st"
  by (rule starts_same) (simp add: addRecvTransceivers_fields)

lemma starts_disconnect [simp]: "startsFor s (disconnect st) = startsFor s st"
  by (simp add: startsFor_def disconnect_effects isStartFor_def)

lemma starts_connectSetup:
  "connectSetup ls env st = Inl st' \<or> connectSetup ls env st = Inr st' \<Longrightarrow>
   startsFor s st' = startsFor s st"
  by (auto simp: connectSetup_def Let_def startsFor_def emit_fields sendMessage_effects updPc_fields
        updWs_def addTransceiver_fields isStartFor_def split: if_splits list.splits)

lemma starts_connect [simp]: "startsFor s (connect ls env st) = startsFor s st"
proof -
  have "startsFor s (st\<lparr>exited := False\<rparr>) = startsFor s st" by (simp add: startsFor_def)
  then show ?thesis
    using starts_connectSetup[of ls env "st\<lparr>exited := False\<rparr>"]
    by (auto simp: connect_def split: sum.splits)
qed

lemma starts_init [simp]: "startsFor s (initSignalingConnection st) = startsFor s st"
  by (simp add: initSignalingConnection_def startsFor_def emit_fields isStartFor_def)

lemma starts_cleanup [simp]: "startsFor s (cleanup st) = startsFor s st"
proof (cases "ws (disconnect st)")
  case None
  then show ?thesis by (simp add: cleanup_def Let_def)
next
  case (Some w)
  have "startsFor s ((emit (Platform WsClose) (disconnect st))\<lparr>ws := None\<rparr>)
          = startsFor s (emit (Platform WsClose) (disconnect st))"
    by (simp add: startsFor_def)
  with Some show ?thesis by (simp add: cleanup_def Let_def)
qed

lemma starts_startScreenShare [simp]: "startsFor s (fst (startScreenShare strm env st)) = startsFor s st"
  by (simp add: startScreenShare_def Let_def startsFor_def emit_fields sendMessage_effects
        isStartFor_def split: option.splits list.splits)

lemma starts_stopScreenShare [simp]: "startsFor s (stopScreenShare x st) = startsFor s st"
  by (simp add: stopScreenShare_def)

lemma starts_handleIceCandidate [simp]: "startsFor s (handleIceCandidate c st) = startsFor s st"
  by (simp add: handleIceCandidate_def split: option.splits)

lemma starts_handleConnectionStateChange [simp]:
  "startsFor s (handleConnectionStateChange st) = startsFor s st"
  by (simp add: handleConnectionStateChange_def Let_def split: option.splits connectionState.splits)

lemma starts_handleNegotiationNeeded [simp]:
  "startsFor s (handleNegotiationNeeded env st) = startsFor s st"
  by (simp add: handleNegotiationNeeded_def split: option.splits)

lemma starts_storeScreenShareTransceivers [simp]:
  "startsFor s (storeScreenShareTransceivers st) = startsFor s st"
  by (simp add: storeScreenShareTransceivers_def Let_def startsFor_def emit_fields isStartFor_def
        split: option.splits)

lemma starts_applyRemoteOffer [simp]: "startsFor s (applyRemoteOffer offer k st) = startsFor s st"
  by (simp add: applyRemoteOffer_def)

lemma starts_handleOffer:
  "handleOffer offer env st = Inl st' \<or> handleOffer offer env st = Inr st' \<Longrightarrow>
   startsFor s st' = startsFor s st"
  by (auto simp: handleOffer_def Let_def split: option.splits if_splits)

lemma starts_handleAnswer:
  "handleAnswer answer env st = Inl st' \<or> handleAnswer answer env st = Inr st' \<Longrightarrow>
   startsFor s st' = startsFor s st"
  by (auto simp: handleAnswer_def split: option.splits)

lemma aboutOf_frame:
  "buffersOf st' = buffersOf st \<Longrightarrow> startsFor s st' = startsFor s st \<Longrightarrow> aboutOf s st' = aboutOf s st"
  by (simp add: aboutOf_def buffersOf_def)

lemma keyed_frame: "buffersOf st' = buffersOf st \<Longrightarrow> keyed st' = keyed st"
  by (simp add: keyed_def buffersOf_def)

subsection \<open>The three handlers that touch the pending maps\<close>

lemma keyed_handleTrack: "keyed st \<Longrightarrow> keyed (handleTrack V streams st)"
  by (cases streams)
     (auto simp: keyed_def handleTrack_def Let_def emit_fields sendMessage_fields split: option.splits)

lemma keyed_handlePeerScreenShare: "keyed st \<Longrightarrow> keyed (handlePeerScreenShare s p st)"
  by (auto simp: keyed_def handlePeerScreenShare_def emit_fields split: option.splits if_splits)

lemma keyed_handlePeerScreenShareStop: "keyed st \<Longrightarrow> keyed (handlePeerScreenShareStop x st)"
  by (auto simp: keyed_def handlePeerScreenShareStop_def emit_fields split: if_splits)

lemma aboutOf_handleTrack_other:
  assumes "case streams of [] \<Rightarrow> True | r # _ \<Rightarrow> msId r \<noteq> s"
  shows "aboutOf s (handleTrack V streams st) = aboutOf s st"
proof (cases streams)
  case Nil
  then show ?thesis by (simp add: handleTrack_def aboutOf_def emit_fields)
next
  case (Cons r rest)
  with assms have ne: "msId r \<noteq> s" by simp
  show ?thesis
  proof (cases "pendingScreenShareIds st (msId r)")
    case None
    with Cons ne show ?thesis
      by (simp add: handleTrack_def Let_def aboutOf_def emit_fields sendMessage_fields
            startsFor_def sendMessage_effects isStartFor_def)
  next
    case (Some q)
    with Cons ne show ?thesis
      by (simp add: handleTrack_def Let_def aboutOf_def emit_fields sendMessage_fields
            startsFor_def sendMessage_effects isStartFor_def)
  qed
qed

lemma aboutOf_handlePeerScreenShare_other:
  assumes "keyed st" "s' \<noteq> s"
  shows "aboutOf s (handlePeerScreenShare s' q st) = aboutOf s st"
proof (cases "pendingStreams st s'")
  case None
  with assms show ?thesis
    by (simp add: handlePeerScreenShare_def aboutOf_def startsFor_def)
next
  case (Some strm)
  with assms(1) have "msId strm = s'" by (simp add: keyed_def)
  with Some assms(2) show ?thesis
    by (simp add: handlePeerScreenShare_def aboutOf_def startsFor_def emit_fields isStartFor_def)
qed

lemma aboutOf_handlePeerScreenShareStop_other:
  assumes "x \<noteq> s"
  shows "aboutOf s (handlePeerScreenShareStop x st) = aboutOf s st"
  using assms
  by (simp add: handlePeerScreenShareStop_def aboutOf_def startsFor_def emit_fields isStartFor_def)

lemma aboutOf_emit_log: "aboutOf s (emit (Console l m) st) = aboutOf s st"
  by (simp add: aboutOf_def emit_fields)

lemma keyed_emit: "keyed (emit e st) = keyed st"
  by (simp add: keyed_def emit_fields)

subsection \<open>Dispatch of a message that is not about the id\<close>



lemma dispatch_other:
  assumes "keyed st" "\<not> aboutMessage s m"
    "dispatch m env st = Inl st' \<or> dispatch m env st = Inr st'"
  shows "aboutOf s st' = aboutOf s st \<and> keyed st'"
proof (cases m)
  case (InOffer offer)
  with assms(3) have r: "handleOffer offer env st = Inl st' \<or> handleOffer offer env st = Inr st'" by simp
  from aboutOf_frame[OF buffersOf_handleOffer[OF r] starts_handleOffer[OF r]]
       keyed_frame[OF buffersOf_handleOffer[OF r]] assms(1)
  show ?thesis by simp
next
  case (InAnswer answer)
  with assms(3) have r: "handleAnswer answer env st = Inl st' \<or> handleAnswer answer env st = Inr st'"
    by simp
  from aboutOf_frame[OF buffersOf_handleAnswer[OF r] starts_handleAnswer[OF r]]
       keyed_frame[OF buffersOf_handleAnswer[OF r]] assms(1)
  show ?thesis by simp
next
  case (InCandidate c)
  with assms show ?thesis by (auto split: if_splits)
next
  case (InPeerExit a b)
  with assms show ?thesis by (auto simp: aboutOf_def emit_fields keyed_emit)
next
  case (InPeerScreenShare s' q)
  with assms(2) have "s' \<noteq> s" by (simp add: aboutMessage_def)
  with InPeerScreenShare assms(1,3) show ?thesis
    by (auto simp: aboutOf_handlePeerScreenShare_other keyed_handlePeerScreenShare)
next
  case (InPeerScreenShareStop x)
  with assms(2) have "x \<noteq> s" by (simp add: aboutMessage_def)
  with InPeerScreenShareStop assms(1,3) show ?thesis
    by (auto simp: aboutOf_handlePeerScreenShareStop_other keyed_handlePeerScreenShareStop)
next
  case (InOther ty)
  with assms show ?thesis by (auto simp: aboutOf_emit_log keyed_emit)
qed

lemma keyed_dispatch:
  assumes "keyed st" "dispatch m env st = Inl st' \<or> dispatch m env st = Inr st'"
  shows "keyed st'"
proof (cases m)
  case (InOffer offer)
  with assms(2) have r: "handleOffer offer env st = Inl st' \<or> handleOffer offer env st = Inr st'" by simp
  from keyed_frame[OF buffersOf_handleOffer[OF r]] assms(1) show ?thesis by simp
next
  case (InAnswer answer)
  with assms(2) have r: "handleAnswer answer env st = Inl st' \<or> handleAnswer answer env st = Inr st'"
    by simp
  from keyed_frame[OF buffersOf_handleAnswer[OF r]] assms(1) show ?thesis by simp
next
  case (InCandidate c)
  with assms show ?thesis by (auto split: if_splits)
next
  case (InPeerExit a b)
  with assms show ?thesis by (auto simp: keyed_emit)
next
  case (InPeerScreenShare s' q)
  with assms show ?thesis by (auto simp: keyed_handlePeerScreenShare)
next
  case (InPeerScreenShareStop x)
  with assms show ?thesis by (auto simp: keyed_handlePeerScreenShareStop)
next
  case (InOther ty)
  with assms show ?thesis by (auto simp: keyed_emit)
qed

lemma handleWsMessage_other:
  assumes "keyed st" "\<forall>m. d = Parsed m \<longrightarrow> \<not> aboutMessage s m"
  shows "aboutOf s (fst (handleWsMessage d env st)) = aboutOf s st \<and>
         keyed (fst (handleWsMessage d env st))"
proof (cases "pc st")
  case None
  then show ?thesis using assms by (simp add: handleWsMessage_def)
next
  case (Some p)
  show ?thesis
  proof (cases d)
    case Unparseable
    then show ?thesis using assms Some by (simp add: handleWsMessage_def)
  next
    case (Parsed m)
    let ?st0 = "emit (Console Log ''msg (call active): '') st"
    have k0: "keyed ?st0" using assms(1) by (simp add: keyed_emit)
    have a0: "aboutOf s ?st0 = aboutOf s st" by (rule aboutOf_emit_log)
    from assms(2) Parsed have nm: "\<not> aboutMessage s m" by simp
    show ?thesis
    proof (cases "dispatch m env ?st0")
      case (Inl st')
      with dispatch_other[OF k0 nm, of env st'] a0 have "aboutOf s st' = aboutOf s st \<and> keyed st'"
        by simp
      then show ?thesis using Some Parsed Inl
        by (simp add: handleWsMessage_def aboutOf_emit_log keyed_emit)
    next
      case (Inr st')
      with dispatch_other[OF k0 nm, of env st'] a0 have "aboutOf s st' = aboutOf s st \<and> keyed st'"
        by simp
      then show ?thesis using Some Parsed Inr by (simp add: handleWsMessage_def)
    qed
  qed
qed

lemma keyed_handleWsMessage:
  assumes "keyed st"
  shows "keyed (fst (handleWsMessage d env st))"
proof (cases "pc st")
  case None
  then show ?thesis using assms by (simp add: handleWsMessage_def)
next
  case (Some p)
  show ?thesis
  proof (cases d)
    case Unparseable
    then show ?thesis using assms Some by (simp add: handleWsMessage_def)
  next
    case (Parsed m)
    let ?st0 = "emit (Console Log ''msg (call active): '') st"
    have k0: "keyed ?st0" using assms(1) by (simp add: keyed_emit)
    show ?thesis
    proof (cases "dispatch m env ?st0")
      case (Inl st')
      with keyed_dispatch[OF k0, of m env st'] have "keyed st'" by simp
      then show ?thesis using Some Parsed Inl by (simp add: handleWsMessage_def keyed_emit)
    next
      case (Inr st')
      with keyed_dispatch[OF k0, of m env st'] have "keyed st'" by simp
      then show ?thesis using Some Parsed Inr by (simp add: handleWsMessage_def)
    qed
  qed
qed

lemma starts_step:
  assumes "\<forall>d env. e \<noteq> WsMessage d env" "\<forall>streams. e \<noteq> Track streams"
  shows "startsFor s (step V e st) = startsFor s st"
  using assms
  by (cases e) (simp_all add: Let_def split: option.splits)

lemma quiet_step:
  assumes "keyed st" "\<not> concerns s e"
  shows "aboutOf s (step V e st) = aboutOf s st \<and> keyed (step V e st)"
proof -
  have other: "aboutOf s (step V e st) = aboutOf s st \<and> keyed (step V e st) = keyed st"
    if "\<forall>d env. e \<noteq> WsMessage d env" "\<forall>streams. e \<noteq> Track streams"
  proof -
    have b: "buffersOf (step V e st) = buffersOf st" by (rule buffersOf_step[OF that])
    have c: "startsFor s (step V e st) = startsFor s st" by (rule starts_step[OF that])
    from aboutOf_frame[OF b c] keyed_frame[OF b] show ?thesis by simp
  qed
  show ?thesis
  proof (cases e)
  case (WsMessage d env)
  with assms(2) have nm: "\<forall>m. d = Parsed m \<longrightarrow> \<not> aboutMessage s m"
    by (auto simp: concerns_def aboutMessage_def split: inbound.splits)
  from handleWsMessage_other[OF assms(1) nm, of env] WsMessage assms(1) show ?thesis
    by (cases "ws st"; cases "onmessage (the (ws st))")
       (simp_all add: wsMessageEvent_def aboutOf_emit_log keyed_emit)
next
  case (Track streams)
  with assms(2) have ns: "case streams of [] \<Rightarrow> True | r # _ \<Rightarrow> msId r \<noteq> s"
    by (simp add: concerns_def split: list.splits)
  from aboutOf_handleTrack_other[OF ns, of V st] keyed_handleTrack[OF assms(1), of V streams]
    Track assms(1)
  show ?thesis by (simp split: option.splits)
  qed (use assms(1) other in simp_all)
qed

lemma keyed_step:
  assumes "keyed st"
  shows "keyed (step V e st)"
proof -
  have other: "keyed (step V e st) = keyed st"
    if "\<forall>d env. e \<noteq> WsMessage d env" "\<forall>streams. e \<noteq> Track streams"
  proof -
    have b: "buffersOf (step V e st) = buffersOf st" by (rule buffersOf_step[OF that])
    from keyed_frame[OF b] show ?thesis .
  qed
  show ?thesis
  proof (cases e)
  case (WsMessage d env)
  from keyed_handleWsMessage[OF assms, of d env] WsMessage assms show ?thesis
    by (cases "ws st"; cases "onmessage (the (ws st))")
       (simp_all add: wsMessageEvent_def keyed_emit)
next
  case (Track streams)
  from keyed_handleTrack[OF assms, of V streams] Track assms
  show ?thesis by (simp split: option.splits)
  qed (use assms other in simp_all)
qed

lemma quiet_run:
  "keyed st \<Longrightarrow> \<forall>e \<in> set es. \<not> concerns s e \<Longrightarrow>
   aboutOf s (run V es st) = aboutOf s st \<and> keyed (run V es st)"
proof (induction es arbitrary: st)
  case Nil
  then show ?case by simp
next
  case (Cons e es)
  from quiet_step[OF Cons.prems(1), where s = s and e = e and V = V] Cons.prems(2)
  have a: "aboutOf s (step V e st) = aboutOf s st" and k: "keyed (step V e st)" by simp_all
  from Cons.IH[OF k] Cons.prems(2) a show ?case by simp
qed

lemma keyed_run: "keyed st \<Longrightarrow> keyed (run V es st)"
  by (induction es arbitrary: st) (simp_all add: keyed_step)

lemma keyed_reachable: "keyed (run V es (newManager room client name))"
  by (rule keyed_run) (simp add: keyed_def newManager_def)

lemma run_append: "run V (xs @ ys) st = run V ys (run V xs st)"
  by (induction xs arbitrary: st) simp_all

lemma step_track_handled:
  "trackHandled st \<Longrightarrow> step V (Track streams) st = handleTrack V streams st"
  by (simp add: trackHandled_def split: option.splits)

lemma step_message_handled:
  "messageHandled st \<Longrightarrow>
   step V (WsMessage (Parsed (InPeerScreenShare s p)) env) st =
     handlePeerScreenShare s p (emit (Console Log ''msg (call active): '') st)"
  by (auto simp: messageHandled_def wsMessageEvent_def handleWsMessage_def split: option.splits)

lemma aboutOf_track_buffered:
  assumes "pendingScreenShareIds st (msId strm) = None" "\<not> V (msId strm)"
    "includes_str (msId strm) ''screen''"
  shows "aboutOf (msId strm) (handleTrack V (strm # rest) st)
           = (Some strm, None, startsFor (msId strm) st)"
  using assms
  by (simp add: handleTrack_screen aboutOf_def sendMessage_fields startsFor_def sendMessage_effects
        isStartFor_def)

lemma aboutOf_track_owned:
  assumes "pendingScreenShareIds st (msId strm) = Some p"
  shows "aboutOf (msId strm) (handleTrack V (strm # rest) st)
           = (pendingStreams st (msId strm), None,
              startsFor (msId strm) st @ [OnPeerScreenShare p strm])"
  using assms
  by (simp add: handleTrack_owned aboutOf_def sendMessage_fields startsFor_def sendMessage_effects
        isStartFor_def callbacksOf_append)

lemma aboutOf_share_buffered:
  assumes "pendingStreams st s = None"
  shows "aboutOf s (handlePeerScreenShare s p (emit (Console Log m) st))
           = (None, Some p, startsFor s st)"
  using assms
  by (simp add: handlePeerScreenShare_def aboutOf_def emit_fields startsFor_def isStartFor_def)

lemma aboutOf_share_correlated:
  assumes "pendingStreams st s = Some strm" "msId strm = s"
  shows "aboutOf s (handlePeerScreenShare s p (emit (Console Log m) st))
           = (None, pendingScreenShareIds st s, startsFor s st @ [OnPeerScreenShare p strm])"
  using assms
  by (simp add: handlePeerScreenShare_def aboutOf_def emit_fields startsFor_def isStartFor_def
        callbacksOf_append)

lemma correlation_once:
  fixes strm :: mediaStream
  assumes "keyed st" "\<forall>e \<in> set es. \<not> concerns (msId strm) e"
  shows "(trackHandled st \<and> \<not> V (msId strm) \<and> includes_str (msId strm) ''screen'' \<and>
          pendingScreenShareIds st (msId strm) = None \<and>
          messageHandled (run V es (step V (Track (strm # rest)) st)) \<longrightarrow>
            aboutOf (msId strm)
              (run V (Track (strm # rest) # es @
                        [WsMessage (Parsed (InPeerScreenShare (msId strm) p)) env]) st)
              = (None, None, startsFor (msId strm) st @ [OnPeerScreenShare p strm])) \<and>
         (messageHandled st \<and> pendingStreams st (msId strm) = None \<and>
          trackHandled
            (run V es (step V (WsMessage (Parsed (InPeerScreenShare (msId strm) p)) env) st)) \<longrightarrow>
            aboutOf (msId strm)
              (run V (WsMessage (Parsed (InPeerScreenShare (msId strm) p)) env # es @
                        [Track (strm # rest)]) st)
              = (None, None, startsFor (msId strm) st @ [OnPeerScreenShare p strm]))"
proof -
  let ?s = "msId strm"
  let ?track = "Track (strm # rest)"
  let ?share = "WsMessage (Parsed (InPeerScreenShare ?s p)) env"
  have first: "aboutOf ?s (run V (?track # es @ [?share]) st)
              = (None, None, startsFor ?s st @ [OnPeerScreenShare p strm])"
    if h: "trackHandled st" and nu: "\<not> V ?s" and sc: "includes_str ?s ''screen''"
      and np: "pendingScreenShareIds st ?s = None"
      and mh: "messageHandled (run V es (step V ?track st))"
  proof -
    define st1 where "st1 = step V ?track st"
    define st2 where "st2 = run V es st1"
    have s1: "st1 = handleTrack V (strm # rest) st"
      unfolding st1_def using h by (rule step_track_handled)
    have a1: "aboutOf ?s st1 = (Some strm, None, startsFor ?s st)"
      unfolding s1 using np nu sc by (rule aboutOf_track_buffered)
    have k1: "keyed st1" unfolding st1_def using assms(1) by (rule keyed_step)
    from quiet_run[OF k1 assms(2), of V] a1
    have a2: "aboutOf ?s st2 = (Some strm, None, startsFor ?s st)" by (simp add: st2_def)
    then have b2: "pendingStreams st2 ?s = Some strm" and i2: "pendingScreenShareIds st2 ?s = None"
      and c2: "startsFor ?s st2 = startsFor ?s st"
      by (simp_all add: aboutOf_def)
    from mh have mh2: "messageHandled st2" by (simp only: st2_def st1_def)
    have e3: "step V ?share st2
                = handlePeerScreenShare ?s p (emit (Console Log ''msg (call active): '') st2)"
      using mh2 by (rule step_message_handled)
    have "aboutOf ?s (step V ?share st2)
            = (None, None, startsFor ?s st @ [OnPeerScreenShare p strm])"
      unfolding e3 using aboutOf_share_correlated[OF b2 refl, of p "''msg (call active): ''"] i2 c2
      by simp
    moreover have "run V (?track # es @ [?share]) st = step V ?share st2"
      by (simp only: run.simps run_append st2_def st1_def)
    ultimately show ?thesis by (simp only:)
  qed
  have second: "aboutOf ?s (run V (?share # es @ [?track]) st)
              = (None, None, startsFor ?s st @ [OnPeerScreenShare p strm])"
    if mh: "messageHandled st" and np: "pendingStreams st ?s = None"
      and h: "trackHandled (run V es (step V ?share st))"
  proof -
    define st1 where "st1 = step V ?share st"
    define st2 where "st2 = run V es st1"
    have s1: "st1 = handlePeerScreenShare ?s p (emit (Console Log ''msg (call active): '') st)"
      unfolding st1_def using mh by (rule step_message_handled)
    have a1: "aboutOf ?s st1 = (None, Some p, startsFor ?s st)"
      unfolding s1 using np by (rule aboutOf_share_buffered)
    have k1: "keyed st1" unfolding st1_def using assms(1) by (rule keyed_step)
    from quiet_run[OF k1 assms(2), of V] a1
    have a2: "aboutOf ?s st2 = (None, Some p, startsFor ?s st)" by (simp add: st2_def)
    then have b2: "pendingStreams st2 ?s = None" and i2: "pendingScreenShareIds st2 ?s = Some p"
      and c2: "startsFor ?s st2 = startsFor ?s st"
      by (simp_all add: aboutOf_def)
    from h have h2: "trackHandled st2" by (simp only: st2_def st1_def)
    have e3: "step V ?track st2 = handleTrack V (strm # rest) st2"
      using h2 by (rule step_track_handled)
    have "aboutOf ?s (step V ?track st2)
            = (None, None, startsFor ?s st @ [OnPeerScreenShare p strm])"
      unfolding e3 using aboutOf_track_owned[OF i2, of V rest] b2 c2
      by simp
    moreover have "run V (?share # es @ [?track]) st = step V ?track st2"
      by (simp only: run.simps run_append st2_def st1_def)
    ultimately show ?thesis by (simp only:)
  qed
  from first second show ?thesis by blast
qed

section \<open>Correlation of screen streams with their owners\<close>

text \<open>
  C1 as stated fails. In the sample session, when an owner \<open>peer-9\<close> is already pending
  for \<open>screen-1\<close>, the stream and the announcement for \<open>peer-2\<close> fire the callback for
  \<open>peer-9\<close> only. When the stream arrives twice, the pair \<open>peer-2\<close>, \<open>screen-1\<close> fires
  twice. When the connection is dropped between the stream and the announcement, the
  callback does not fire at all.
\<close>

theorem screen_share_started_counterexample:
  "callbacksOf (effectsSince sampleConnected
     (run sampleValidator
        [WsMessage (Parsed (InPeerScreenShare ''screen-1'' ''peer-9'')) samplePlatform,
         Track [sampleScreen],
         WsMessage (Parsed (InPeerScreenShare ''screen-1'' ''peer-2'')) samplePlatform]
        sampleConnected))
     = [OnPeerScreenShare ''peer-9'' sampleScreen] \<and>
   callbacksOf (effectsSince sampleConnected
     (run sampleValidator
        [WsMessage (Parsed (InPeerScreenShare ''screen-1'' ''peer-2'')) samplePlatform,
         Track [sampleScreen],
         Track [sampleScreen],
         WsMessage (Parsed (InPeerScreenShare ''screen-1'' ''peer-2'')) samplePlatform]
        sampleConnected))
     = [OnPeerScreenShare ''peer-2'' sampleScreen, OnPeerScreenShare ''peer-2'' sampleScreen] \<and>
   callbacksOf (effectsSince sampleConnected
     (run sampleValidator
        [Track [sampleScreen],
         Disconnect,
         WsMessage (Parsed (InPeerScreenShare ''screen-1'' ''peer-2'')) samplePlatform]
        sampleConnected))
     = [OnStatusChange ''inactive'', OnRemoteStreamStopped]"
  by (simp add: sampleConnected_eq wsMessageEvent_def handleWsMessage_def handlePeerScreenShare_def
        handleTrack_def sendMessage_def wsOpen_def emit_def disconnect_def
        sampleScreen_def sampleValidator_def effectsSince_def Let_def)

text \<open>
  C1, amended. In a state reached from a new manager, a remote screen stream with id \<open>s\<close>
  arrives (a track event whose first stream has that id, an id that is not a UUID and
  contains \<open>screen\<close>) and the announcement \<open>peerScreenShare\<close> with streamId \<open>s\<close> and
  peerId \<open>p\<close> arrives, in either order, with any events between them that are not about
  \<open>s\<close> (no track event for \<open>s\<close>, no announcement for \<open>s\<close>, no stop message carrying
  \<open>s\<close>). If each of the two reaches its handler (the track handler is installed on a
  connection when the track event occurs; \<open>handleWsMessage\<close> is the socket's handler and
  a connection exists when the announcement arrives), and nothing is pending for \<open>s\<close> in
  the map that the handler of the first one consults, then over the whole sequence
  \<open>onPeerScreenShare\<close> is invoked exactly once for a stream with id \<open>s\<close>, with \<open>p\<close> and
  the stream that arrived, and \<open>s\<close> ends in neither pending map.
\<close>

theorem screen_share_started_once:
  fixes strm :: mediaStream
  assumes "\<forall>e \<in> set es. \<not> concerns (msId strm) e"
  shows "let st = run V es0 (newManager room client name);
             track = Track (strm # rest);
             share = WsMessage (Parsed (InPeerScreenShare (msId strm) p)) env
         in (trackHandled st \<and> \<not> V (msId strm) \<and> includes_str (msId strm) ''screen'' \<and>
             pendingScreenShareIds st (msId strm) = None \<and>
             messageHandled (run V (track # es) st) \<longrightarrow>
               (let st' = run V (track # es @ [share]) st
                in startsFor (msId strm) st' = startsFor (msId strm) st @ [OnPeerScreenShare p strm] \<and>
                   pendingStreams st' (msId strm) = None \<and>
                   pendingScreenShareIds st' (msId strm) = None)) \<and>
            (messageHandled st \<and> pendingStreams st (msId strm) = None \<and>
             trackHandled (run V (share # es) st) \<longrightarrow>
               (let st' = run V (share # es @ [track]) st
                in startsFor (msId strm) st' = startsFor (msId strm) st @ [OnPeerScreenShare p strm] \<and>
                   pendingStreams st' (msId strm) = None \<and>
                   pendingScreenShareIds st' (msId strm) = None))"
proof -
  define st where "st = run V es0 (newManager room client name)"
  have k: "keyed st" unfolding st_def by (rule keyed_reachable)
  from correlation_once[OF k assms, of V rest p env] show ?thesis
    unfolding Let_def st_def[symmetric] by (simp add: aboutOf_def)
qed

theorem screen_share_started_once_witness:
  "\<not> concerns (msId sampleScreen) (IceCandidate None) \<and>
   \<not> concerns (msId sampleScreen) Disconnect \<and>
   \<not> concerns (msId sampleScreen) (Connect sampleCamera samplePlatform) \<and>
   \<not> concerns (msId sampleScreen)
        (WsMessage (Parsed (InPeerScreenShare ''screen-9'' ''peer-7'')) samplePlatform) \<and>
   trackHandled sampleConnected \<and> messageHandled sampleConnected \<and>
   \<not> sampleValidator (msId sampleScreen) \<and> includes_str (msId sampleScreen) ''screen'' \<and>
   pendingScreenShareIds sampleConnected (msId sampleScreen) = None \<and>
   pendingStreams sampleConnected (msId sampleScreen) = None \<and>
   startsFor (msId sampleScreen)
     (run sampleValidator
        (Track [sampleScreen] #
         [IceCandidate None, Disconnect, Connect sampleCamera samplePlatform] @
         [WsMessage (Parsed (InPeerScreenShare (msId sampleScreen) ''peer-2'')) samplePlatform])
        sampleConnected)
     = [OnPeerScreenShare ''peer-2'' sampleScreen] \<and>
   startsFor (msId sampleScreen)
     (run sampleValidator
        (WsMessage (Parsed (InPeerScreenShare (msId sampleScreen) ''peer-2'')) samplePlatform #
         [WsMessage (Parsed (InPeerScreenShare ''screen-9'' ''peer-7'')) samplePlatform] @
         [Track [sampleScreen]])
        sampleConnected)
     = [OnPeerScreenShare ''peer-2'' sampleScreen]"
proof -
  let ?init = "[InitSignalingConnection, WsOpened, Connect sampleCamera samplePlatform]"
  let ?track = "Track [sampleScreen]"
  let ?share = "WsMessage (Parsed (InPeerScreenShare (msId sampleScreen) ''peer-2'')) samplePlatform"
  let ?other = "WsMessage (Parsed (InPeerScreenShare ''screen-9'' ''peer-7'')) samplePlatform"
  let ?rejoin = "[IceCandidate None, Disconnect, Connect sampleCamera samplePlatform]"
  have st: "run sampleValidator ?init (newManager ''room-1'' ''client-1'' ''alice'') = sampleConnected"
    by (simp only: sampleConnected_def)
  have quiet1: "\<not> concerns (msId sampleScreen) (IceCandidate None) \<and>
                \<not> concerns (msId sampleScreen) Disconnect \<and>
                \<not> concerns (msId sampleScreen) (Connect sampleCamera samplePlatform)"
    by (simp add: concerns_def)
  have quiet2: "\<not> concerns (msId sampleScreen) ?other"
    by (simp add: concerns_def sampleScreen_def)
  have base: "trackHandled sampleConnected \<and> messageHandled sampleConnected \<and>
              \<not> sampleValidator (msId sampleScreen) \<and> includes_str (msId sampleScreen) ''screen'' \<and>
              pendingScreenShareIds sampleConnected (msId sampleScreen) = None \<and>
              pendingStreams sampleConnected (msId sampleScreen) = None \<and>
              startsFor (msId sampleScreen) sampleConnected = []"
    by (simp add: trackHandled_def messageHandled_def sampleConnected_eq sampleValidator_def
          sampleScreen_def startsFor_def isStartFor_def)
  have live1: "messageHandled (run sampleValidator (?track # ?rejoin) sampleConnected)"
    by (simp add: messageHandled_def sampleConnected_eq handleTrack_def handleIceCandidate_def
          sendMessage_def wsOpen_def emit_def disconnect_def connect_def connectSetup_def
          freshPeerConnection_def installConnectHandlers_def addTransceiver_def updPc_def updWs_def
          sampleScreen_def sampleValidator_def sampleCamera_def samplePlatform_def Let_def)
  have live2: "trackHandled (run sampleValidator (?share # [?other]) sampleConnected)"
    by (simp add: trackHandled_def sampleConnected_eq wsMessageEvent_def handleWsMessage_def
          handlePeerScreenShare_def emit_def sampleScreen_def)
  have q1: "\<forall>e \<in> set ?rejoin. \<not> concerns (msId sampleScreen) e" using quiet1 by simp
  have q2: "\<forall>e \<in> set [?other]. \<not> concerns (msId sampleScreen) e" using quiet2 by simp
  from screen_share_started_once[OF q1, where V = sampleValidator and ?es0.0 = ?init
      and room = "''room-1''" and client = "''client-1''" and name = "''alice''"
      and rest = "[]" and p = "''peer-2''" and env = samplePlatform, unfolded Let_def st]
    base live1
  have r1: "startsFor (msId sampleScreen)
              (run sampleValidator (?track # ?rejoin @ [?share]) sampleConnected)
            = [OnPeerScreenShare ''peer-2'' sampleScreen]"
    by simp
  from screen_share_started_once[OF q2, where V = sampleValidator and ?es0.0 = ?init
      and room = "''room-1''" and client = "''client-1''" and name = "''alice''"
      and rest = "[]" and p = "''peer-2''" and env = samplePlatform, unfolded Let_def st]
    base live2
  have r2: "startsFor (msId sampleScreen)
              (run sampleValidator (?share # [?other] @ [?track]) sampleConnected)
            = [OnPeerScreenShare ''peer-2'' sampleScreen]"
    by simp
  from quiet1 quiet2 base r1 r2 show ?thesis by blast
qed

text \<open>
  C2 as stated fails in its second half. In the sample session the owner of
  \<open>screen-1\<close> is announced, a stop message with that id removes the pending owner, and
  then the stream arrives: both facts have been received, the id is a key of
  \<open>pendingStreams\<close>, and no callback has fired. When the stream arrives twice after the
  announcement, the first arrival correlates and the second is buffered. And when the
  stream is pending and the connection is dropped, the announcement is only logged by
  the handler that \<open>disconnect\<close> leaves on the socket: the stream stays pending and
  \<open>onPeerScreenShare\<close> does not fire.
\<close>

theorem pending_buffers_counterexample:
  "pendingStreams
     (run sampleValidator
        [WsMessage (Parsed (InPeerScreenShare ''screen-1'' ''peer-2'')) samplePlatform,
         WsMessage (Parsed (InPeerScreenShareStop ''screen-1'')) samplePlatform,
         Track [sampleScreen]]
        sampleConnected) ''screen-1'' = Some sampleScreen \<and>
   callbacksOf (effectsSince sampleConnected
     (run sampleValidator
        [WsMessage (Parsed (InPeerScreenShare ''screen-1'' ''peer-2'')) samplePlatform,
         WsMessage (Parsed (InPeerScreenShareStop ''screen-1'')) samplePlatform,
         Track [sampleScreen]]
        sampleConnected)) = [] \<and>
   pendingStreams
     (run sampleValidator
        [WsMessage (Parsed (InPeerScreenShare ''screen-1'' ''peer-2'')) samplePlatform,
         Track [sampleScreen],
         Track [sampleScreen]]
        sampleConnected) ''screen-1'' = Some sampleScreen \<and>
   pendingStreams
     (run sampleValidator
        [Track [sampleScreen],
         Disconnect,
         WsMessage (Parsed (InPeerScreenShare ''screen-1'' ''peer-2'')) samplePlatform]
        sampleConnected) ''screen-1'' = Some sampleScreen \<and>
   callbacksOf (effectsSince sampleConnected
     (run sampleValidator
        [Track [sampleScreen],
         Disconnect,
         WsMessage (Parsed (InPeerScreenShare ''screen-1'' ''peer-2'')) samplePlatform]
        sampleConnected)) = [OnStatusChange ''inactive'', OnRemoteStreamStopped]"
  by (simp add: sampleConnected_eq wsMessageEvent_def handleWsMessage_def handlePeerScreenShare_def
        handlePeerScreenShareStop_def handleTrack_def sendMessage_def wsOpen_def emit_def
        disconnect_def sampleScreen_def sampleValidator_def effectsSince_def Let_def)

text \<open>
  C2, amended. In every state that a sequence of events reaches from a new manager
  (track events, \<open>peerScreenShare\<close> and \<open>peerScreenShareStop\<close> messages, and every other
  event), no stream id is a key of both \<open>pendingStreams\<close> and \<open>pendingScreenShareIds\<close>.
  In such a state, when \<open>handleTrack\<close> runs on a stream whose owner is pending, or
  when \<open>handleWsMessage\<close> handles, with a connection in place, an announcement whose
  stream is pending, the id is afterwards a key of neither map and \<open>onPeerScreenShare\<close>
  has fired for it.
\<close>

theorem pending_buffers_exclusive:
  fixes strm :: mediaStream
  shows "let st = run V es (newManager room client name)
         in buffersDisjoint st \<and>
            (pendingScreenShareIds st (msId strm) = Some p \<longrightarrow>
               (let st' = handleTrack V (strm # rest) st
                in pendingStreams st' (msId strm) = None \<and>
                   pendingScreenShareIds st' (msId strm) = None \<and>
                   callbacksOf (effectsSince st st') = [OnPeerScreenShare p strm])) \<and>
            (pc st \<noteq> None \<and> pendingStreams st s = Some strm \<longrightarrow>
               (let st' = fst (handleWsMessage (Parsed (InPeerScreenShare s q)) env st)
                in pendingStreams st' s = None \<and>
                   pendingScreenShareIds st' s = None \<and>
                   callbacksOf (effectsSince st st') = [OnPeerScreenShare q strm]))"
proof -
  define st where "st = run V es (newManager room client name)"
  have "buffersDisjoint (newManager room client name)"
    by (simp add: buffersDisjoint_def newManager_def)
  then have inv: "buffersDisjoint st"
    unfolding st_def by (rule disjoint_run)
  have track: "pendingStreams st' (msId strm) = None \<and>
               pendingScreenShareIds st' (msId strm) = None \<and>
               callbacksOf (effectsSince st st') = [OnPeerScreenShare p strm]"
    if owner: "pendingScreenShareIds st (msId strm) = Some p"
      and st': "st' = handleTrack V (strm # rest) st" for st'
  proof -
    from inv[unfolded buffersDisjoint_iff] owner have "pendingStreams st (msId strm) = None"
      by (metis option.distinct(1))
    then show ?thesis
      using owner st'
      by (simp add: handleTrack_owned sendMessage_fields effectsSince_def sendMessage_effects
            callbacksOf_append)
  qed
  have share: "pendingStreams st' s = None \<and> pendingScreenShareIds st' s = None \<and>
               callbacksOf (effectsSince st st') = [OnPeerScreenShare q strm]"
    if conn: "pc st \<noteq> None" and buffered: "pendingStreams st s = Some strm"
      and st': "st' = fst (handleWsMessage (Parsed (InPeerScreenShare s q)) env st)" for st'
  proof -
    from inv[unfolded buffersDisjoint_iff] buffered have "pendingScreenShareIds st s = None"
      by (metis option.distinct(1))
    then show ?thesis
      using conn buffered st'
      by (simp add: handleWsMessage_share handlePeerScreenShare_pending emit_fields
            effectsSince_def callbacksOf_append)
  qed
  from inv track share show ?thesis
    unfolding st_def Let_def by blast
qed

theorem pending_buffers_exclusive_witness:
  "pendingScreenShareIds
     (run sampleValidator [WsMessage (Parsed (InPeerScreenShare ''screen-1'' ''peer-2'')) samplePlatform]
        sampleConnected) (msId sampleScreen) = Some ''peer-2'' \<and>
   pendingStreams
     (run sampleValidator [Track [sampleScreen]] sampleConnected) ''screen-1'' = Some sampleScreen \<and>
   pc (run sampleValidator [Track [sampleScreen]] sampleConnected) \<noteq> None \<and>
   buffersDisjoint
     (run sampleValidator [Track [sampleScreen]] sampleConnected) \<and>
   callbacksOf (effectsSince
      (run sampleValidator [WsMessage (Parsed (InPeerScreenShare ''screen-1'' ''peer-2'')) samplePlatform]
         sampleConnected)
      (handleTrack sampleValidator [sampleScreen]
         (run sampleValidator [WsMessage (Parsed (InPeerScreenShare ''screen-1'' ''peer-2'')) samplePlatform]
            sampleConnected)))
     = [OnPeerScreenShare ''peer-2'' sampleScreen] \<and>
   callbacksOf (effectsSince
      (run sampleValidator [Track [sampleScreen]] sampleConnected)
      (fst (handleWsMessage (Parsed (InPeerScreenShare ''screen-1'' ''peer-2'')) samplePlatform
         (run sampleValidator [Track [sampleScreen]] sampleConnected))))
     = [OnPeerScreenShare ''peer-2'' sampleScreen]"
proof -
  let ?init = "[InitSignalingConnection, WsOpened, Connect sampleCamera samplePlatform]"
  let ?share = "WsMessage (Parsed (InPeerScreenShare ''screen-1'' ''peer-2'')) samplePlatform"
  let ?new = "newManager ''room-1'' ''client-1'' ''alice''"
  have r1: "run sampleValidator [?share] sampleConnected = run sampleValidator (?init @ [?share]) ?new"
    by (simp add: sampleConnected_def)
  have r2: "run sampleValidator [Track [sampleScreen]] sampleConnected
              = run sampleValidator (?init @ [Track [sampleScreen]]) ?new"
    by (simp add: sampleConnected_def)
  have h1: "pendingScreenShareIds (run sampleValidator [?share] sampleConnected) (msId sampleScreen)
              = Some ''peer-2''"
    by (simp add: sampleConnected_eq wsMessageEvent_def handleWsMessage_def handlePeerScreenShare_def
          emit_def sampleScreen_def)
  have h2: "pendingStreams (run sampleValidator [Track [sampleScreen]] sampleConnected) ''screen-1''
              = Some sampleScreen
            \<and> pc (run sampleValidator [Track [sampleScreen]] sampleConnected) \<noteq> None"
    by (simp add: sampleConnected_eq handleTrack_def sendMessage_def wsOpen_def emit_def
          sampleScreen_def sampleValidator_def Let_def)
  from pending_buffers_exclusive[of sampleValidator "?init @ [?share]" "''room-1''" "''client-1''"
      "''alice''" sampleScreen "''peer-2''" "[]"] h1
  have c1: "callbacksOf (effectsSince
      (run sampleValidator [?share] sampleConnected)
      (handleTrack sampleValidator [sampleScreen] (run sampleValidator [?share] sampleConnected)))
     = [OnPeerScreenShare ''peer-2'' sampleScreen]"
    unfolding r1 Let_def by blast
  from pending_buffers_exclusive[of sampleValidator "?init @ [Track [sampleScreen]]" "''room-1''"
      "''client-1''" "''alice''" sampleScreen _ _ "''screen-1''" "''peer-2''" samplePlatform] h2
  have c2: "buffersDisjoint (run sampleValidator [Track [sampleScreen]] sampleConnected) \<and>
    callbacksOf (effectsSince
      (run sampleValidator [Track [sampleScreen]] sampleConnected)
      (fst (handleWsMessage (Parsed (InPeerScreenShare ''screen-1'' ''peer-2'')) samplePlatform
         (run sampleValidator [Track [sampleScreen]] sampleConnected))))
     = [OnPeerScreenShare ''peer-2'' sampleScreen]"
    unfolding r2 Let_def by blast
  from h1 h2 c1 c2 show ?thesis by blast
qed

section \<open>Disconnecting\<close>

text \<open>
  C3. \<open>disconnect()\<close> is idempotent: in every state, a second call right after the
  first changes nothing, so the final state and the trace of envelopes, callbacks and
  console lines are those of a single call. A call made while \<open>exited\<close> is true returns
  the state as it was, with nothing sent and no callback fired.
\<close>

theorem disconnect_idempotent:
  "disconnect (disconnect st) = disconnect st \<and>
   effects (disconnect (disconnect st)) = effects (disconnect st) \<and>
   (exited st \<longrightarrow> disconnect st = st)"
proof -
  have "exited (disconnect st)"
    by (simp add: disconnect_def Let_def emit_fields sendMessage_fields split: option.splits)
  then have "disconnect (disconnect st) = disconnect st"
    by (subst disconnect_def) simp
  moreover have "exited st \<longrightarrow> disconnect st = st"
    by (simp add: disconnect_def)
  ultimately show ?thesis by simp
qed

theorem disconnect_idempotent_witness:
  "\<not> exited sampleConnected \<and>
   disconnect (disconnect sampleConnected) = disconnect sampleConnected \<and>
   sentOf (effectsSince sampleConnected (disconnect (disconnect sampleConnected)))
     = [SignalMessage ''exit'' ''client-1'' ''room-1'' (PExit ''alice'')] \<and>
   exited (disconnect sampleConnected) \<and>
   disconnect (disconnect sampleConnected) = disconnect sampleConnected"
proof -
  have a: "\<not> exited sampleConnected" by (simp add: sampleConnected_eq)
  have b: "sentOf (effectsSince sampleConnected (disconnect sampleConnected))
             = [SignalMessage ''exit'' ''client-1'' ''room-1'' (PExit ''alice'')]
           \<and> exited (disconnect sampleConnected)"
    by (simp add: sampleConnected_eq disconnect_def Let_def wsOpen_def sendMessage_def emit_def
          effectsSince_def)
  from disconnect_idempotent[of sampleConnected] disconnect_idempotent[of "disconnect sampleConnected"] a b
  show ?thesis by simp
qed

section \<open>Connecting\<close>

text \<open>
  C10. When \<open>connect(localStream)\<close> is called while the socket is absent or not OPEN,
  the only thing that happens is the callback \<open>onError("Signaling server not connected")\<close>:
  no connection is created, \<open>exited\<close> and the pending maps keep their values, and no
  envelope is sent.
\<close>

theorem connect_without_signaling:
  assumes "\<not> wsOpen st"
  shows "connect localStream env st
           = st\<lparr>effects := effects st @ [Callback (OnError ''Signaling server not connected'')]\<rparr> \<and>
         pc (connect localStream env st) = pc st \<and>
         exited (connect localStream env st) = exited st \<and>
         buffersOf (connect localStream env st) = buffersOf st \<and>
         sentOf (effects (connect localStream env st)) = sentOf (effects st)"
  using assms by (simp add: connect_def emit_def buffersOf_def sentOf_append)

theorem connect_without_signaling_witness:
  "\<not> wsOpen (initSignalingConnection (newManager ''room-1'' ''client-1'' ''alice'')) \<and>
   effects (connect sampleCamera samplePlatform
              (initSignalingConnection (newManager ''room-1'' ''client-1'' ''alice'')))
     = [Platform NewWebSocket, Callback (OnError ''Signaling server not connected'')] \<and>
   pc (connect sampleCamera samplePlatform
         (initSignalingConnection (newManager ''room-1'' ''client-1'' ''alice''))) = None"
proof -
  let ?st = "initSignalingConnection (newManager ''room-1'' ''client-1'' ''alice'')"
  have a: "\<not> wsOpen ?st"
    by (simp add: wsOpen_def initSignalingConnection_def)
  have b: "effects ?st = [Platform NewWebSocket] \<and> pc ?st = None"
    by (simp add: initSignalingConnection_def emit_def newManager_def)
  from connect_without_signaling[OF a, of sampleCamera samplePlatform] a b
  show ?thesis by simp
qed

text \<open>
  C4. When the socket is present and OPEN, \<open>disconnect()\<close> keeps it: \<open>ws\<close> is the same
  socket, still OPEN (only its \<open>onmessage\<close> is replaced by the logging handler), and
  \<open>ws.close()\<close> is not called. A \<open>connect()\<close> right after does not take the error path
  \<open>"Signaling server not connected"\<close> and opens no new socket; when the constructor of
  the connection succeeds and the local stream has a video and an audio track, it ends
  with a connection, \<open>exited\<close> false, and exactly the join envelope sent on that socket.
\<close>

theorem disconnect_keeps_signaling:
  assumes "ws st = Some w" "readyState w = OPEN"
  shows "ws (disconnect st) = Some (if exited st then w else w\<lparr>onmessage := LogInactive\<rparr>) \<and>
         wsOpen (disconnect st) \<and>
         Platform WsClose \<notin> set (effectsSince st (disconnect st)) \<and>
         (let st1 = disconnect st; st2 = connect localStream env st1
          in Callback (OnError ''Signaling server not connected'') \<notin> set (effectsSince st1 st2) \<and>
             Platform NewWebSocket \<notin> set (effectsSince st1 st2) \<and>
             (newPeerConnectionOk env \<and> videoTracks localStream \<noteq> [] \<and>
              audioTracks localStream \<noteq> [] \<longrightarrow>
                pc st2 \<noteq> None \<and> \<not> exited st2 \<and>
                ws st2 = Some (w\<lparr>onmessage := HandleWsMessage\<rparr>) \<and>
                effectsSince st1 st2 =
                  [Platform NewPeerConnection,
                   Send (SignalMessage ''join'' (clientId st) (roomId st) (PJoin (userName st)))]))"
proof -
  have open0: "wsOpen st" using assms by (simp add: wsOpen_def)
  then have open1: "wsOpen (disconnect st)" by (simp add: disconnect_fields)
  have ws1: "ws (disconnect st) = Some (if exited st then w else w\<lparr>onmessage := LogInactive\<rparr>)"
    using assms by (simp add: disconnect_ws)
  have noclose: "Platform WsClose \<notin> set (effectsSince st (disconnect st))"
    by (simp add: effectsSince_def disconnect_effects)
  have ok: "pc st2 \<noteq> None \<and> \<not> exited st2 \<and> ws st2 = Some (w\<lparr>onmessage := HandleWsMessage\<rparr>) \<and>
            effectsSince (disconnect st) st2 =
                  [Platform NewPeerConnection,
                   Send (SignalMessage ''join'' (clientId st) (roomId st) (PJoin (userName st)))]"
    if good: "newPeerConnectionOk env \<and> videoTracks localStream \<noteq> [] \<and> audioTracks localStream \<noteq> []"
      and st2: "st2 = connect localStream env (disconnect st)" for st2
  proof -
    let ?s = "(disconnect st)\<lparr>exited := False\<rparr>"
    from connectSetup_succeeds[of env localStream ?s] good
    obtain st' where r: "connectSetup localStream env ?s = Inr st'"
      by blast
    have o: "wsOpen ?s" using open1 by (simp add: wsOpen_def)
    have w: "ws ?s = Some (if exited st then w else w\<lparr>onmessage := LogInactive\<rparr>)"
      using ws1 by simp
    from connectSetup_Inr[OF r w] connectSetup_effects(1)[OF o r] show ?thesis
      using st2 open1 r by (simp add: connect_def effectsSince_def disconnect_fields)
  qed
  from ws1 open1 noclose connect_open_effects[OF open1, of localStream env] ok show ?thesis
    unfolding Let_def by blast
qed

theorem disconnect_keeps_signaling_witness:
  "ws sampleConnected = Some \<lparr>readyState = OPEN, onmessage = HandleWsMessage\<rparr> \<and>
   ws (disconnect sampleConnected) = Some \<lparr>readyState = OPEN, onmessage = LogInactive\<rparr> \<and>
   pc (disconnect sampleConnected) = None \<and>
   pc (connect sampleCamera samplePlatform (disconnect sampleConnected)) \<noteq> None \<and>
   effectsSince (disconnect sampleConnected)
       (connect sampleCamera samplePlatform (disconnect sampleConnected))
     = [Platform NewPeerConnection,
        Send (SignalMessage ''join'' ''client-1'' ''room-1'' (PJoin ''alice''))]"
proof -
  have a: "ws sampleConnected = Some \<lparr>readyState = OPEN, onmessage = HandleWsMessage\<rparr>"
    by (simp add: sampleConnected_eq)
  have b: "readyState \<lparr>readyState = OPEN, onmessage = HandleWsMessage\<rparr> = OPEN" by simp
  have c: "\<not> exited sampleConnected \<and> clientId sampleConnected = ''client-1'' \<and>
           roomId sampleConnected = ''room-1'' \<and> userName sampleConnected = ''alice''"
    by (simp add: sampleConnected_eq)
  have d: "newPeerConnectionOk samplePlatform \<and> videoTracks sampleCamera \<noteq> [] \<and>
           audioTracks sampleCamera \<noteq> []"
    by (simp add: samplePlatform_def sampleCamera_def)
  have e: "pc (disconnect sampleConnected) = None"
    using c by (simp add: disconnect_pc)
  from disconnect_keeps_signaling[OF a b, of sampleCamera samplePlatform] a c d e
  show ?thesis by (simp add: Let_def)
qed

section \<open>Stopping a screen share\<close>

text \<open>
  C9 as stated fails: with the socket not OPEN, \<open>stopScreenShare\<close> sends no envelope at
  all; and on an OPEN socket the payload carries the id under the key \<open>streamId\<close>.
\<close>

theorem stopScreenShare_counterexample:
  "sentOf (effectsSince sampleUnopened (stopScreenShare ''client-1'' sampleUnopened)) = [] \<and>
   sentOf (effectsSince sampleConnected (stopScreenShare ''client-1'' sampleConnected))
     = [SignalMessage ''peerScreenShareStop'' ''client-1'' ''room-1'' (PStreamId ''client-1'')]"
  by (simp add: stopScreenShare_def sendMessage_def emit_def effectsSince_def wsOpen_def
        sampleUnopened_def initSignalingConnection_def newManager_def sampleConnected_eq)

text \<open>
  C9, amended. \<open>stopScreenShare(id)\<close> adds one effect and changes nothing else. When the
  socket is OPEN the effect is one envelope of type \<open>peerScreenShareStop\<close> with the
  clientId and roomId of the session, whose payload carries the id (the code builds it
  as \<open>{ streamId }\<close>). When the socket is absent or not OPEN the effect is a console error
  and nothing is sent. No callback fires and no transceiver or track is touched.
\<close>

theorem stopScreenShare_sends:
  "(let st' = stopScreenShare x st
    in st' = st\<lparr>effects := effects st @
                 [if wsOpen st
                  then Send (SignalMessage ''peerScreenShareStop'' (clientId st) (roomId st) (PStreamId x))
                  else Console Error
                         ''Cannot send message, WebSocket is not available. Type: peerScreenShareStop'']\<rparr> \<and>
       (wsOpen st \<longrightarrow> sentOf (effectsSince st st')
            = [SignalMessage ''peerScreenShareStop'' (clientId st) (roomId st) (PStreamId x)]) \<and>
       (\<not> wsOpen st \<longrightarrow> sentOf (effectsSince st st') = []) \<and>
       callbacksOf (effectsSince st st') = [] \<and>
       store st' = store st)"
  by (simp add: stopScreenShare_def sendMessage_def emit_def effectsSince_def Let_def)

theorem stopScreenShare_sends_witness:
  "wsOpen sampleConnected \<and> \<not> wsOpen sampleUnopened \<and>
   sentOf (effectsSince sampleConnected (stopScreenShare ''client-1'' sampleConnected))
     = [SignalMessage ''peerScreenShareStop'' (clientId sampleConnected) (roomId sampleConnected)
          (PStreamId ''client-1'')] \<and>
   sentOf (effectsSince sampleUnopened (stopScreenShare ''client-1'' sampleUnopened)) = []"
proof -
  have a: "wsOpen sampleConnected" by (simp add: sampleConnected_eq wsOpen_def)
  have b: "\<not> wsOpen sampleUnopened"
    by (simp add: sampleUnopened_def initSignalingConnection_def wsOpen_def)
  from stopScreenShare_sends[of "''client-1''" sampleConnected, unfolded Let_def]
       stopScreenShare_sends[of "''client-1''" sampleUnopened, unfolded Let_def] a b
  show ?thesis by blast
qed

text \<open>
  C8, on the code. The stop handler looks up the \<open>peerId\<close> of the message in
  \<open>pendingStreams\<close> and \<open>pendingScreenShareIds\<close>, which the source declares keyed by
  stream id. In the sample session the peer \<open>samplePeerId\<close> starts a share with stream
  \<open>screen-1\<close> and stops it before the two facts have met. With the stream buffered
  first: the stop message does not find the buffered stream, leaves it in
  \<open>pendingStreams\<close> and fires \<open>onPeerScreenShareStopped\<close>; the announcement that follows
  fires \<open>onPeerScreenShare\<close> with the stream that was left. With the owner announced
  first: the stop message leaves the pending owner and fires the stopped callback, and
  the stream that arrives later fires \<open>onPeerScreenShare\<close>. The claim asks for the
  buffered entry to be removed and for no callback at all.
\<close>

theorem screen_share_stop_misses_buffer:
  "pendingStreams
     (run sampleValidator
        [Track [sampleScreen],
         WsMessage (Parsed (InPeerScreenShareStop samplePeerId)) samplePlatform]
        sampleConnected) ''screen-1'' = Some sampleScreen \<and>
   callbacksOf (effectsSince sampleConnected
     (run sampleValidator
        [Track [sampleScreen],
         WsMessage (Parsed (InPeerScreenShareStop samplePeerId)) samplePlatform]
        sampleConnected))
     = [OnPeerScreenShareStopped samplePeerId] \<and>
   callbacksOf (effectsSince sampleConnected
     (run sampleValidator
        [Track [sampleScreen],
         WsMessage (Parsed (InPeerScreenShareStop samplePeerId)) samplePlatform,
         WsMessage (Parsed (InPeerScreenShare ''screen-1'' samplePeerId)) samplePlatform]
        sampleConnected))
     = [OnPeerScreenShareStopped samplePeerId, OnPeerScreenShare samplePeerId sampleScreen] \<and>
   pendingScreenShareIds
     (run sampleValidator
        [WsMessage (Parsed (InPeerScreenShare ''screen-1'' samplePeerId)) samplePlatform,
         WsMessage (Parsed (InPeerScreenShareStop samplePeerId)) samplePlatform]
        sampleConnected) ''screen-1'' = Some samplePeerId \<and>
   callbacksOf (effectsSince sampleConnected
     (run sampleValidator
        [WsMessage (Parsed (InPeerScreenShare ''screen-1'' samplePeerId)) samplePlatform,
         WsMessage (Parsed (InPeerScreenShareStop samplePeerId)) samplePlatform,
         Track [sampleScreen]]
        sampleConnected))
     = [OnPeerScreenShareStopped samplePeerId, OnPeerScreenShare samplePeerId sampleScreen]"
  by (simp add: sampleConnected_eq wsMessageEvent_def handleWsMessage_def handlePeerScreenShare_def
        handlePeerScreenShareStop_def handleTrack_def sendMessage_def wsOpen_def emit_def
        sampleScreen_def sampleValidator_def samplePeerId_def effectsSince_def Let_def)

section \<open>Negotiation\<close>

text \<open>
  C5 as stated fails: an offer whose remote description the platform rejects is answered
  with no envelope at all.
\<close>

theorem offer_answer_counterexample:
  "pc sampleConnected \<noteq> None \<and> wsOpen sampleConnected \<and>
   sentOf (effectsSince sampleConnected
      (fst (handleWsMessage (Parsed (InOffer ''offer-1'')) sampleRejectingPlatform sampleConnected)))
     = []"
  by (simp add: sampleConnected_eq sampleRejectingPlatform_def samplePlatform_def effectsSince_def
        eval_defs)

text \<open>
  C5, amended. An inbound offer is processed while the connection exists and the socket
  is OPEN. If \<open>setRemoteDescription\<close>, \<open>createAnswer\<close> and \<open>setLocalDescription\<close> all
  succeed, exactly one envelope is sent, of type \<open>answer\<close> with the clientId and roomId
  of the session, and \<open>onnegotiationneeded\<close> is installed right after it, as the last
  effect of the handler. If one of the three fails, no envelope is sent and the handler
  field of the connection is left as it was.
\<close>

theorem offer_answer_once:
  assumes "pc st = Some p" "wsOpen st"
  shows "let st' = fst (handleWsMessage (Parsed (InOffer offer)) env st)
         in (setRemoteDescriptionNew env = Some k \<and> createAnswerSdp env = Some ans \<and>
             setLocalDescriptionOk env \<longrightarrow>
               effectsSince st st' =
                 [Console Log ''msg (call active): ''] @
                 (if length (pcTransceivers p) + k \<ge> 4 then []
                  else [Console Warn (''Expected at least 4 transceivers, found ''
                          @ digit (length (pcTransceivers p) + k)
                          @ '', no screen share transceivers stored'')]) @
                 [Send (SignalMessage ''answer'' (clientId st) (roomId st)
                          (PDescription (Some (''answer'', ans)))),
                  Platform SetOnNegotiationNeeded] \<and>
               sentOf (effectsSince st st') =
                 [SignalMessage ''answer'' (clientId st) (roomId st)
                    (PDescription (Some (''answer'', ans)))] \<and>
               map_option onnegotiationneeded (pc st') = Some True) \<and>
            (setRemoteDescriptionNew env = None \<or> createAnswerSdp env = None \<or>
             \<not> setLocalDescriptionOk env \<longrightarrow>
               sentOf (effectsSince st st') = [] \<and>
               Platform SetOnNegotiationNeeded \<notin> set (effectsSince st st') \<and>
               map_option onnegotiationneeded (pc st') = Some (onnegotiationneeded p))"
proof -
  let ?st0 = "emit (Console Log ''msg (call active): '') st"
  have p0: "pc ?st0 = Some p" using assms by (simp add: emit_fields)
  have pcne: "pc st \<noteq> None" using assms by simp
  note facts = handleWsMessage_offer[OF pcne] handleOffer_def applyRemoteOffer_effects[OF p0]
    applyRemoteOffer_pc[OF p0] applyRemoteOffer_fields emit_fields updPc_fields sendMessage_fields
    sendMessage_effects effectsSince_def sentOf_append
  show ?thesis
    using assms
    by (cases "setRemoteDescriptionNew env"; cases "createAnswerSdp env";
        cases "setLocalDescriptionOk env"; simp add: facts Let_def)
qed

theorem offer_answer_once_witness:
  "pc sampleConnected \<noteq> None \<and> wsOpen sampleConnected \<and>
   setRemoteDescriptionNew samplePlatform = Some 2 \<and>
   createAnswerSdp samplePlatform = Some ''answer-sdp'' \<and> setLocalDescriptionOk samplePlatform \<and>
   setRemoteDescriptionNew sampleRejectingPlatform = None \<and>
   effectsSince sampleConnected
      (fst (handleWsMessage (Parsed (InOffer ''offer-1'')) samplePlatform sampleConnected))
     = [Console Log ''msg (call active): '',
        Send (SignalMessage ''answer'' ''client-1'' ''room-1''
                (PDescription (Some (''answer'', ''answer-sdp'')))),
        Platform SetOnNegotiationNeeded] \<and>
   Platform SetOnNegotiationNeeded \<notin> set (effectsSince sampleConnected
      (fst (handleWsMessage (Parsed (InOffer ''offer-1'')) sampleRejectingPlatform sampleConnected)))"
proof -
  let ?p = "\<lparr> onicecandidate = True, onconnectionstatechange = True, ontrack = True,
              onnegotiationneeded = False, pcConnectionState = New, pcTransceivers = [0, 1],
              remoteDescription = None, localDescription = None \<rparr>"
  have a: "pc sampleConnected = Some ?p" by (simp add: sampleConnected_eq)
  have b: "wsOpen sampleConnected" by (simp add: sampleConnected_eq wsOpen_def)
  have c: "setRemoteDescriptionNew samplePlatform = Some 2 \<and>
           createAnswerSdp samplePlatform = Some ''answer-sdp'' \<and> setLocalDescriptionOk samplePlatform"
    by (simp add: samplePlatform_def)
  have d: "setRemoteDescriptionNew sampleRejectingPlatform = None"
    by (simp add: sampleRejectingPlatform_def)
  have e: "clientId sampleConnected = ''client-1'' \<and> roomId sampleConnected = ''room-1''"
    by (simp add: sampleConnected_eq)
  from offer_answer_once[OF a b, where env = samplePlatform and k = 2 and ans = "''answer-sdp''"
      and offer = "''offer-1''", unfolded Let_def] c e
  have r1: "effectsSince sampleConnected
      (fst (handleWsMessage (Parsed (InOffer ''offer-1'')) samplePlatform sampleConnected))
     = [Console Log ''msg (call active): '',
        Send (SignalMessage ''answer'' ''client-1'' ''room-1''
                (PDescription (Some (''answer'', ''answer-sdp'')))),
        Platform SetOnNegotiationNeeded]"
    by simp
  from offer_answer_once[OF a b, where env = sampleRejectingPlatform and offer = "''offer-1''",
      unfolded Let_def] d
  have r2: "Platform SetOnNegotiationNeeded \<notin> set (effectsSince sampleConnected
      (fst (handleWsMessage (Parsed (InOffer ''offer-1'')) sampleRejectingPlatform sampleConnected)))"
    by blast
  from a b c d r1 r2 show ?thesis by simp
qed

text \<open>
  C7 as stated fails: when the platform rejects the remote description of an offer, the
  handler only logs the error. No callback fires (so \<open>onError\<close> is not invoked), the
  connection is still there and \<open>exited\<close> is still false (so \<open>disconnect()\<close> has not run).
\<close>

theorem negotiation_failure_counterexample:
  "callbacksOf (effectsSince sampleConnected
      (fst (handleWsMessage (Parsed (InOffer ''offer-1'')) sampleRejectingPlatform sampleConnected)))
     = [] \<and>
   pc (fst (handleWsMessage (Parsed (InOffer ''offer-1'')) sampleRejectingPlatform sampleConnected))
     \<noteq> None \<and>
   \<not> exited (fst (handleWsMessage (Parsed (InOffer ''offer-1'')) sampleRejectingPlatform sampleConnected))"
  by (simp add: sampleConnected_eq sampleRejectingPlatform_def samplePlatform_def effectsSince_def
        eval_defs)

text \<open>
  C7, amended. When setting a description or creating an answer or an offer fails while
  a connection exists, the exception is caught and logged to the console, and that is
  all: the handler returns, no callback fires, no envelope is sent, the connection stays
  in place, and \<open>exited\<close> and the socket are unchanged. This holds for an inbound offer,
  for an inbound answer, and for the \<open>negotiationneeded\<close> handler.
\<close>

theorem negotiation_failure_logged:
  assumes "pc st = Some p"
  shows "(setRemoteDescriptionNew env = None \<or> createAnswerSdp env = None \<or>
          \<not> setLocalDescriptionOk env \<longrightarrow>
            (let r = handleWsMessage (Parsed (InOffer offer)) env st; st' = fst r
             in snd r = Returned \<and>
                last (effects st') = Console Error ''Error in WS message handler: '' \<and>
                callbacksOf (effectsSince st st') = [] \<and>
                sentOf (effectsSince st st') = [] \<and>
                pc st' \<noteq> None \<and> exited st' = exited st \<and> ws st' = ws st)) \<and>
         (setRemoteDescriptionNew env = None \<longrightarrow>
            handleWsMessage (Parsed (InAnswer answer)) env st =
              (st\<lparr>effects := effects st @
                   [Console Log ''msg (call active): '',
                    Console Error ''Error in WS message handler: '']\<rparr>, Returned)) \<and>
         (createOfferSdp env = None \<or> \<not> setLocalDescriptionOk env \<longrightarrow>
            handleNegotiationNeeded env st =
              st\<lparr>effects := effects st @ [Console Error ''Error during negotiationneeded handling: '']\<rparr>)"
proof -
  let ?st0 = "emit (Console Log ''msg (call active): '') st"
  have p0: "pc ?st0 = Some p" using assms by (simp add: emit_fields)
  have pcne: "pc st \<noteq> None" using assms by simp
  note facts = handleWsMessage_offer[OF pcne] handleOffer_def applyRemoteOffer_effects[OF p0]
    applyRemoteOffer_pc[OF p0] applyRemoteOffer_fields emit_fields updPc_fields sendMessage_fields
    sendMessage_effects effectsSince_def sentOf_append callbacksOf_append
  have offer: "setRemoteDescriptionNew env = None \<or> createAnswerSdp env = None \<or>
          \<not> setLocalDescriptionOk env \<longrightarrow>
            (let r = handleWsMessage (Parsed (InOffer offer)) env st; st' = fst r
             in snd r = Returned \<and>
                last (effects st') = Console Error ''Error in WS message handler: '' \<and>
                callbacksOf (effectsSince st st') = [] \<and>
                sentOf (effectsSince st st') = [] \<and>
                pc st' \<noteq> None \<and> exited st' = exited st \<and> ws st' = ws st)"
    using assms
    by (cases "setRemoteDescriptionNew env"; cases "createAnswerSdp env";
        cases "setLocalDescriptionOk env"; simp add: facts Let_def)
  have answer: "setRemoteDescriptionNew env = None \<longrightarrow>
            handleWsMessage (Parsed (InAnswer answer)) env st =
              (st\<lparr>effects := effects st @
                   [Console Log ''msg (call active): '',
                    Console Error ''Error in WS message handler: '']\<rparr>, Returned)"
    using assms by (simp add: handleWsMessage_def handleAnswer_def emit_def)
  have needed: "createOfferSdp env = None \<or> \<not> setLocalDescriptionOk env \<longrightarrow>
            handleNegotiationNeeded env st =
              st\<lparr>effects := effects st @ [Console Error ''Error during negotiationneeded handling: '']\<rparr>"
    using assms by (auto simp: handleNegotiationNeeded_def emit_def split: option.splits)
  from offer answer needed show ?thesis by blast
qed

theorem negotiation_failure_logged_witness:
  "pc sampleConnected \<noteq> None \<and> setRemoteDescriptionNew sampleRejectingPlatform = None \<and>
   snd (handleWsMessage (Parsed (InOffer ''offer-1'')) sampleRejectingPlatform sampleConnected)
     = Returned \<and>
   callbacksOf (effectsSince sampleConnected
      (fst (handleWsMessage (Parsed (InOffer ''offer-1'')) sampleRejectingPlatform sampleConnected)))
     = [] \<and>
   exited (fst (handleWsMessage (Parsed (InOffer ''offer-1'')) sampleRejectingPlatform sampleConnected))
     = exited sampleConnected \<and>
   effectsSince sampleConnected
      (fst (handleWsMessage (Parsed (InAnswer ''answer-1'')) sampleRejectingPlatform sampleConnected))
     = [Console Log ''msg (call active): '', Console Error ''Error in WS message handler: '']"
proof -
  let ?p = "\<lparr> onicecandidate = True, onconnectionstatechange = True, ontrack = True,
              onnegotiationneeded = False, pcConnectionState = New, pcTransceivers = [0, 1],
              remoteDescription = None, localDescription = None \<rparr>"
  have a: "pc sampleConnected = Some ?p" by (simp add: sampleConnected_eq)
  have d: "setRemoteDescriptionNew sampleRejectingPlatform = None"
    by (simp add: sampleRejectingPlatform_def)
  note inst = negotiation_failure_logged[OF a, where env = sampleRejectingPlatform
      and offer = "''offer-1''" and answer = "''answer-1''", unfolded Let_def]
  from inst d have r1:
    "snd (handleWsMessage (Parsed (InOffer ''offer-1'')) sampleRejectingPlatform sampleConnected)
       = Returned \<and>
     callbacksOf (effectsSince sampleConnected
        (fst (handleWsMessage (Parsed (InOffer ''offer-1'')) sampleRejectingPlatform sampleConnected)))
       = [] \<and>
     exited (fst (handleWsMessage (Parsed (InOffer ''offer-1'')) sampleRejectingPlatform sampleConnected))
       = exited sampleConnected"
    by blast
  from inst d have "handleWsMessage (Parsed (InAnswer ''answer-1'')) sampleRejectingPlatform sampleConnected =
              (sampleConnected\<lparr>effects := effects sampleConnected @
                   [Console Log ''msg (call active): '',
                    Console Error ''Error in WS message handler: '']\<rparr>, Returned)"
    by blast
  then have r2: "effectsSince sampleConnected
      (fst (handleWsMessage (Parsed (InAnswer ''answer-1'')) sampleRejectingPlatform sampleConnected))
     = [Console Log ''msg (call active): '', Console Error ''Error in WS message handler: '']"
    by (simp add: effectsSince_def)
  from a d r1 r2 show ?thesis by simp
qed

section \<open>Screen share transceivers\<close>

text \<open>
  C6 as stated fails. In the sample session a first offer leaves the connection with two
  transceivers, fewer than four, and no screen share transceiver is stored. A second
  offer brings the count to four, and the \<open>startScreenShare\<close> call that follows returns
  normally and sends a \<open>screenShareRequest\<close> envelope: the offer handler looks at the
  transceivers again on every offer. And when the session is left and joined again, an
  offer that leaves the new connection with two transceivers finds the transceivers of
  the old connection still stored: \<open>startScreenShare\<close> then sends the request if
  \<open>replaceTrack\<close> resolves and rejects if it rejects.
\<close>

theorem screen_share_transceivers_counterexample:
  "map_option pcTransceivers (pc sampleSmallOffer) = Some [0, 1] \<and>
   screenShareVideoTransceiver sampleSmallOffer = None \<and>
   snd (startScreenShare sampleScreen samplePlatform sampleLargeOffer) = Returned \<and>
   sentOf (effectsSince sampleLargeOffer
             (fst (startScreenShare sampleScreen samplePlatform sampleLargeOffer)))
     = [SignalMessage ''screenShareRequest'' ''client-1'' ''room-1'' PEmpty] \<and>
   map_option pcTransceivers (pc sampleRejoined) = Some [4, 5] \<and>
   screenShareVideoTransceiver sampleRejoined = Some 2 \<and>
   sentOf (effectsSince sampleRejoined
             (fst (startScreenShare sampleScreen samplePlatform sampleRejoined)))
     = [SignalMessage ''screenShareRequest'' ''client-1'' ''room-1'' PEmpty] \<and>
   snd (startScreenShare sampleScreen (samplePlatform\<lparr>replaceTrackOk := False\<rparr>) sampleRejoined)
     = Threw"
proof -
  have small: "map_option pcTransceivers (pc sampleSmallOffer) = Some [0, 1] \<and>
               screenShareVideoTransceiver sampleSmallOffer = None"
    by (simp add: sampleSmallOffer_eq sampleConnected_eq)
  have large: "snd (startScreenShare sampleScreen samplePlatform sampleLargeOffer) = Returned \<and>
     sentOf (effectsSince sampleLargeOffer
               (fst (startScreenShare sampleScreen samplePlatform sampleLargeOffer)))
       = [SignalMessage ''screenShareRequest'' ''client-1'' ''room-1'' PEmpty]"
    by (simp add: startScreenShare_def sampleLargeOffer_fields sampleScreen_def samplePlatform_def
          Let_def emit_def sendMessage_def wsOpen_def effectsSince_def)
  have stale: "sentOf (effectsSince sampleRejoined
             (fst (startScreenShare sampleScreen samplePlatform sampleRejoined)))
       = [SignalMessage ''screenShareRequest'' ''client-1'' ''room-1'' PEmpty] \<and>
     snd (startScreenShare sampleScreen (samplePlatform\<lparr>replaceTrackOk := False\<rparr>) sampleRejoined)
       = Threw"
    by (simp add: startScreenShare_def sampleRejoined_fields sampleScreen_def samplePlatform_def
          Let_def emit_def sendMessage_def wsOpen_def effectsSince_def)
  from small large stale sampleRejoined_fields(1,2) show ?thesis by blast
qed

text \<open>
  C6, amended. An inbound offer is processed on a well-formed state with a connection,
  and \<open>setRemoteDescription\<close> succeeds, so that the connection then has the transceivers
  \<open>ts\<close>. If there are at least four, the transceivers at positions 2 and 3 are stored in
  the two fields and their direction is send-only; a \<open>startScreenShare\<close> with a stream
  that has a video track, whose \<open>replaceTrack\<close> succeeds, returns normally, puts that
  track on the transceiver at position 2 and changes no other transceiver. If there are
  fewer than four and no screen share video transceiver was stored before the offer,
  none is stored after it, and as long as no further offer is processed every
  \<open>startScreenShare\<close> logs an error and returns, without throwing and without sending.
  Every state reached from a new manager is well-formed (\<open>wellFormed_reachable\<close>).
\<close>

theorem screen_share_transceivers:
  fixes st :: manager and stream :: mediaStream
  assumes "pc st = Some p" "wellFormed st" "setRemoteDescriptionNew env = Some k"
  shows "let st' = fst (handleWsMessage (Parsed (InOffer offer)) env st);
             ts = pcTransceivers p @ [nextRef st ..< nextRef st + k]
         in map_option pcTransceivers (pc st') = Some ts \<and>
            (length ts \<ge> 4 \<longrightarrow>
               screenShareVideoTransceiver st' = Some (ts ! 2) \<and>
               screenShareAudioTransceiver st' = Some (ts ! 3) \<and>
               map_option trDirection (store st' (ts ! 2)) = Some Sendonly \<and>
               map_option trDirection (store st' (ts ! 3)) = Some Sendonly \<and>
               (videoTracks stream = v # vs \<and> replaceTrackOk env' \<longrightarrow>
                  (let r = startScreenShare stream env' st'; st'' = fst r
                   in snd r = Returned \<and>
                      map_option senderTrack (store st'' (ts ! 2)) = Some (Some v) \<and>
                      (\<forall>a. a \<noteq> ts ! 2 \<longrightarrow> store st'' a = store st' a) \<and>
                      (\<forall>i < length ts. i \<noteq> 2 \<longrightarrow> ts ! i \<noteq> ts ! 2)))) \<and>
            (length ts < 4 \<and> screenShareVideoTransceiver st = None \<longrightarrow>
               screenShareVideoTransceiver st' = None \<and>
               screenShareAudioTransceiver st' = screenShareAudioTransceiver st \<and>
               ((\<forall>e \<in> set es. \<not> isOfferEvent e) \<longrightarrow>
                  startScreenShare stream env' (run V es st')
                    = (emit (Console Error ''No screen share video transceiver available'')
                         (run V es st'), Returned) \<and>
                  sentOf (effectsSince (run V es st')
                            (fst (startScreenShare stream env' (run V es st')))) = []))"
proof -
  define st0 where "st0 = emit (Console Log ''msg (call active): '') st"
  define st' where "st' = fst (handleWsMessage (Parsed (InOffer offer)) env st)"
  define ts where "ts = pcTransceivers p @ [nextRef st ..< nextRef st + k]"
  define fresh where "fresh = (\<lambda>r. if nextRef st \<le> r \<and> r < nextRef st + k
                         then Some \<lparr>trDirection = Recvonly, senderTrack = None\<rparr> else store st r)"
  have p0: "pc st0 = Some p" and n0: "nextRef st0 = nextRef st" and s0: "store st0 = store st"
    and v0: "screenShareVideoTransceiver st0 = screenShareVideoTransceiver st"
    and a0: "screenShareAudioTransceiver st0 = screenShareAudioTransceiver st"
    using assms(1) by (simp_all add: st0_def emit_fields)
  have pcne: "pc st \<noteq> None" using assms(1) by simp
  note keeps = handleWsMessage_offer_keeps[OF pcne assms(3), of offer, folded st0_def st'_def]
  from applyRemoteOffer_pc(1)[OF p0, of offer k] keeps(4)
  have list: "map_option pcTransceivers (pc st') = Some ts"
    by (simp add: ts_def n0)
  note applied = applyRemoteOffer_store[OF p0, of k offer, unfolded n0 s0, folded ts_def fresh_def]
  have refs: "distinct ts" "\<forall>r \<in> set ts. fresh r \<noteq> None"
    using wellFormed_refs[OF assms(2,1), of k] by (simp_all add: ts_def fresh_def)
  have enough: "screenShareVideoTransceiver st' = Some (ts ! 2) \<and>
               screenShareAudioTransceiver st' = Some (ts ! 3) \<and>
               map_option trDirection (store st' (ts ! 2)) = Some Sendonly \<and>
               map_option trDirection (store st' (ts ! 3)) = Some Sendonly \<and>
               (videoTracks stream = v # vs \<and> replaceTrackOk env' \<longrightarrow>
                  (let r = startScreenShare stream env' st'; st'' = fst r
                   in snd r = Returned \<and>
                      map_option senderTrack (store st'' (ts ! 2)) = Some (Some v) \<and>
                      (\<forall>a. a \<noteq> ts ! 2 \<longrightarrow> store st'' a = store st' a) \<and>
                      (\<forall>i < length ts. i \<noteq> 2 \<longrightarrow> ts ! i \<noteq> ts ! 2)))"
    if len: "length ts \<ge> 4"
  proof -
    from applied(1)[OF len] keeps(1,2,3)
    have sto: "store st' = setDirection (ts ! 2) Sendonly (setDirection (ts ! 3) Sendonly fresh)"
      and vid: "screenShareVideoTransceiver st' = Some (ts ! 2)"
      and aud: "screenShareAudioTransceiver st' = Some (ts ! 3)"
      by simp_all
    from len have in2: "ts ! 2 \<in> set ts" and in3: "ts ! 3 \<in> set ts" by simp_all
    with refs(2) obtain t2 t3 where f2: "fresh (ts ! 2) = Some t2" and f3: "fresh (ts ! 3) = Some t3"
      by fastforce
    from refs(1) len have ne: "ts ! 3 \<noteq> ts ! 2"
      by (simp add: nth_eq_iff_index_eq)
    have d2: "map_option trDirection (store st' (ts ! 2)) = Some Sendonly"
      using ne f2 by (simp add: sto setDirection_lookup)
    have d3: "map_option trDirection (store st' (ts ! 3)) = Some Sendonly"
      using ne f3 by (simp add: sto setDirection_lookup)
    have dist: "\<forall>i < length ts. i \<noteq> 2 \<longrightarrow> ts ! i \<noteq> ts ! 2"
      using refs(1) len by (simp add: nth_eq_iff_index_eq)
    have share: "(let r = startScreenShare stream env' st'; st'' = fst r
                   in snd r = Returned \<and>
                      map_option senderTrack (store st'' (ts ! 2)) = Some (Some v) \<and>
                      (\<forall>a. a \<noteq> ts ! 2 \<longrightarrow> store st'' a = store st' a) \<and>
                      (\<forall>i < length ts. i \<noteq> 2 \<longrightarrow> ts ! i \<noteq> ts ! 2))"
      if ok: "videoTracks stream = v # vs \<and> replaceTrackOk env'"
    proof -
      from ok have vt: "videoTracks stream = v # vs" and rt: "replaceTrackOk env'" by simp_all
      from d2 obtain t where "store st' (ts ! 2) = Some t" by auto
      with startScreenShare_replaces[OF vid vt rt] dist show ?thesis
        by (simp add: Let_def setSenderTrack_lookup)
    qed
    from vid aud d2 d3 share show ?thesis by blast
  qed
  have few: "screenShareVideoTransceiver st' = None \<and>
               screenShareAudioTransceiver st' = screenShareAudioTransceiver st \<and>
               ((\<forall>e \<in> set es. \<not> isOfferEvent e) \<longrightarrow>
                  startScreenShare stream env' (run V es st')
                    = (emit (Console Error ''No screen share video transceiver available'')
                         (run V es st'), Returned) \<and>
                  sentOf (effectsSince (run V es st')
                            (fst (startScreenShare stream env' (run V es st')))) = [])"
    if len: "length ts < 4" and none: "screenShareVideoTransceiver st = None"
  proof -
    from applied(2)[OF len] keeps(2,3) v0 a0 none
    have vid: "screenShareVideoTransceiver st' = None"
      and aud: "screenShareAudioTransceiver st' = screenShareAudioTransceiver st"
      by simp_all
    have "startScreenShare stream env' (run V es st')
            = (emit (Console Error ''No screen share video transceiver available'') (run V es st'), Returned)
          \<and> sentOf (effectsSince (run V es st')
                            (fst (startScreenShare stream env' (run V es st')))) = []"
      if "\<forall>e \<in> set es. \<not> isOfferEvent e"
    proof -
      from video_run[OF that, of V st'] vid have "screenShareVideoTransceiver (run V es st') = None"
        by simp
      from startScreenShare_unavailable[OF this] show ?thesis
        by (simp add: emit_fields effectsSince_def)
    qed
    with vid aud show ?thesis by blast
  qed
  from list enough few show ?thesis
    unfolding Let_def st'_def[symmetric] ts_def[symmetric] by blast
qed

theorem screen_share_transceivers_witness:
  "pc sampleConnected \<noteq> None \<and> wellFormed sampleConnected \<and>
   setRemoteDescriptionNew samplePlatform = Some 2 \<and>
   setRemoteDescriptionNew sampleBarePlatform = Some 0 \<and>
   videoTracks sampleScreen = [\<lparr>trackId = ''screen-video'', hasContentHint = True\<rparr>] \<and>
   replaceTrackOk samplePlatform \<and>
   screenShareVideoTransceiver
     (fst (handleWsMessage (Parsed (InOffer ''offer-2'')) samplePlatform sampleConnected)) = Some 2 \<and>
   screenShareAudioTransceiver
     (fst (handleWsMessage (Parsed (InOffer ''offer-2'')) samplePlatform sampleConnected)) = Some 3 \<and>
   map_option trDirection
     (store (fst (handleWsMessage (Parsed (InOffer ''offer-2'')) samplePlatform sampleConnected)) 2)
     = Some Sendonly \<and>
   map_option trDirection
     (store (fst (handleWsMessage (Parsed (InOffer ''offer-2'')) samplePlatform sampleConnected)) 3)
     = Some Sendonly \<and>
   map_option senderTrack
     (store (fst (startScreenShare sampleScreen samplePlatform
                    (fst (handleWsMessage (Parsed (InOffer ''offer-2'')) samplePlatform sampleConnected))))
        2)
     = Some (Some \<lparr>trackId = ''screen-video'', hasContentHint = True\<rparr>) \<and>
   screenShareVideoTransceiver sampleConnected = None \<and>
   screenShareVideoTransceiver sampleSmallOffer = None \<and>
   \<not> isOfferEvent (Track [sampleScreen]) \<and> \<not> isOfferEvent (StopScreenShare ''client-1'') \<and>
   startScreenShare sampleScreen samplePlatform
      (run sampleValidator [Track [sampleScreen], StopScreenShare ''client-1''] sampleSmallOffer)
     = (emit (Console Error ''No screen share video transceiver available'')
          (run sampleValidator [Track [sampleScreen], StopScreenShare ''client-1''] sampleSmallOffer),
        Returned)"
proof -
  let ?p = "\<lparr> onicecandidate = True, onconnectionstatechange = True, ontrack = True,
              onnegotiationneeded = False, pcConnectionState = New, pcTransceivers = [0, 1],
              remoteDescription = None, localDescription = None \<rparr>"
  let ?v = "\<lparr>trackId = ''screen-video'', hasContentHint = True\<rparr>"
  let ?es = "[Track [sampleScreen], StopScreenShare ''client-1'']"
  have a: "pc sampleConnected = Some ?p" by (simp add: sampleConnected_eq)
  have b: "wellFormed sampleConnected"
    by (auto simp: wellFormed_def sampleConnected_eq)
  have c: "setRemoteDescriptionNew samplePlatform = Some 2 \<and> replaceTrackOk samplePlatform"
    by (simp add: samplePlatform_def)
  have c0: "setRemoteDescriptionNew sampleBarePlatform = Some 0"
    by (simp add: sampleBarePlatform_def)
  have d: "videoTracks sampleScreen = ?v # []" by (simp add: sampleScreen_def)
  have n: "nextRef sampleConnected = 2 \<and> screenShareVideoTransceiver sampleConnected = None"
    by (simp add: sampleConnected_eq)
  have e: "\<not> isOfferEvent (Track [sampleScreen]) \<and> \<not> isOfferEvent (StopScreenShare ''client-1'')"
    by (simp add: isOfferEvent_def)
  have ts4: "pcTransceivers ?p @ [nextRef sampleConnected ..< nextRef sampleConnected + 2] = [0, 1, 2, 3]"
    using n by (simp add: upt_rec)
  have ts2: "pcTransceivers ?p @ [nextRef sampleConnected ..< nextRef sampleConnected + 0] = [0, 1]"
    by simp
  note big = screen_share_transceivers[OF a b conjunct1[OF c], where offer = "''offer-2''"
      and stream = sampleScreen and v = ?v and vs = "[]" and env' = samplePlatform,
      unfolded Let_def ts4]
  from big c d have r1:
    "screenShareVideoTransceiver
       (fst (handleWsMessage (Parsed (InOffer ''offer-2'')) samplePlatform sampleConnected)) = Some 2 \<and>
     screenShareAudioTransceiver
       (fst (handleWsMessage (Parsed (InOffer ''offer-2'')) samplePlatform sampleConnected)) = Some 3 \<and>
     map_option trDirection
       (store (fst (handleWsMessage (Parsed (InOffer ''offer-2'')) samplePlatform sampleConnected)) 2)
       = Some Sendonly \<and>
     map_option trDirection
       (store (fst (handleWsMessage (Parsed (InOffer ''offer-2'')) samplePlatform sampleConnected)) 3)
       = Some Sendonly \<and>
     map_option senderTrack
       (store (fst (startScreenShare sampleScreen samplePlatform
                      (fst (handleWsMessage (Parsed (InOffer ''offer-2'')) samplePlatform sampleConnected))))
          2)
       = Some (Some ?v)"
    by simp
  note small = screen_share_transceivers[OF a b c0, where offer = "''offer-1''"
      and stream = sampleScreen and env' = samplePlatform and es = ?es and V = sampleValidator,
      unfolded Let_def ts2, folded sampleSmallOffer_def]
  from small n e have r2:
    "screenShareVideoTransceiver sampleSmallOffer = None \<and>
     startScreenShare sampleScreen samplePlatform (run sampleValidator ?es sampleSmallOffer)
       = (emit (Console Error ''No screen share video transceiver available'')
            (run sampleValidator ?es sampleSmallOffer), Returned)"
    by simp
  from a b c c0 d n e r1 r2 show ?thesis by simp
qed

end
